theory Spec2Isabelle
  imports Complex_Main
begin

section \<open>JavaScript numbers\<close>

text \<open>
  A JavaScript number is NaN, an infinity or a finite binary64 value. A finite value is
  kept as the rational it denotes; every arithmetic result passes through \<open>fl\<close>, the
  round-to-nearest-even of binary64 (52 fraction bits, least exponent -1022, overflow to
  an infinity). The two zeros are one value here: the program never divides by a computed
  value, compares only with \<open>>=\<close> and prints only through \<open>toFixed\<close>, which all
  treat \<open>-0\<close> as \<open>0\<close>.
\<close>

datatype number = NaN | PosInf | NegInf | Fin rat

fun nbits :: "nat \<Rightarrow> nat" where
  "nbits n = (if n = 0 then 0 else Suc (nbits (n div 2)))"

declare nbits.simps [simp del]

definition pow2 :: "int \<Rightarrow> rat" where
  "pow2 k = (if 0 \<le> k then 2 ^ nat k else 1 / 2 ^ nat (- k))"

definition pow10 :: "int \<Rightarrow> rat" where
  "pow10 k = (if 0 \<le> k then 10 ^ nat k else 1 / 10 ^ nat (- k))"

text \<open>The exponent of a positive rational: the \<open>e\<close> with \<open>2^e \<le> a < 2^(e+1)\<close>.\<close>

definition ilog2 :: "rat \<Rightarrow> int" where
  "ilog2 a =
     (if 1 \<le> a then int (nbits (nat \<lfloor>a\<rfloor>)) - 1
      else - int (nbits (nat (\<lceil>1 / a\<rceil> - 1))))"

definition roundHalfEven :: "rat \<Rightarrow> int" where
  "roundHalfEven x =
     (let f = \<lfloor>x\<rfloor>; d = x - of_int f
      in if d < 1 / 2 then f
         else if 1 / 2 < d then f + 1
         else if even f then f else f + 1)"

definition fl :: "rat \<Rightarrow> number" where
  "fl q =
     (if q = 0 then Fin 0
      else
        let a = \<bar>q\<bar>;
            e = max (ilog2 a) (- 1022);
            u = pow2 (e - 52);
            r = of_int (roundHalfEven (a / u)) * u
        in if pow2 1024 \<le> r then (if 0 < q then PosInf else NegInf)
           else Fin (if 0 < q then r else - r))"

definition isNaN :: "number \<Rightarrow> bool" where
  "isNaN v = (case v of NaN \<Rightarrow> True | _ \<Rightarrow> False)"

definition isFinite :: "number \<Rightarrow> bool" where
  "isFinite v = (case v of Fin q \<Rightarrow> True | _ \<Rightarrow> False)"

fun num_sub :: "number \<Rightarrow> number \<Rightarrow> number" where
  "num_sub NaN w = NaN"
| "num_sub v NaN = NaN"
| "num_sub PosInf PosInf = NaN"
| "num_sub NegInf NegInf = NaN"
| "num_sub PosInf w = PosInf"
| "num_sub NegInf w = NegInf"
| "num_sub (Fin a) PosInf = NegInf"
| "num_sub (Fin a) NegInf = PosInf"
| "num_sub (Fin a) (Fin b) = fl (a - b)"

definition signedInf :: "bool \<Rightarrow> number" where
  "signedInf positive = (if positive then PosInf else NegInf)"

fun num_mul :: "number \<Rightarrow> number \<Rightarrow> number" where
  "num_mul NaN w = NaN"
| "num_mul v NaN = NaN"
| "num_mul PosInf PosInf = PosInf"
| "num_mul PosInf NegInf = NegInf"
| "num_mul NegInf PosInf = NegInf"
| "num_mul NegInf NegInf = PosInf"
| "num_mul PosInf (Fin b) = (if b = 0 then NaN else signedInf (0 < b))"
| "num_mul NegInf (Fin b) = (if b = 0 then NaN else signedInf (b < 0))"
| "num_mul (Fin a) PosInf = (if a = 0 then NaN else signedInf (0 < a))"
| "num_mul (Fin a) NegInf = (if a = 0 then NaN else signedInf (a < 0))"
| "num_mul (Fin a) (Fin b) = fl (a * b)"

text \<open>Division; a zero divisor is read as \<open>+0\<close> (the program divides by the literal 3 only).\<close>

fun num_div :: "number \<Rightarrow> number \<Rightarrow> number" where
  "num_div NaN w = NaN"
| "num_div v NaN = NaN"
| "num_div PosInf PosInf = NaN"
| "num_div PosInf NegInf = NaN"
| "num_div NegInf PosInf = NaN"
| "num_div NegInf NegInf = NaN"
| "num_div PosInf (Fin b) = signedInf (0 \<le> b)"
| "num_div NegInf (Fin b) = signedInf (b < 0)"
| "num_div (Fin a) PosInf = Fin 0"
| "num_div (Fin a) NegInf = Fin 0"
| "num_div (Fin a) (Fin b) =
     (if b = 0 then (if a = 0 then NaN else signedInf (0 < a)) else fl (a / b))"

text \<open>The comparison \<open>v >= w\<close>: false as soon as one side is NaN.\<close>

fun num_ge :: "number \<Rightarrow> number \<Rightarrow> bool" where
  "num_ge NaN w = False"
| "num_ge v NaN = False"
| "num_ge PosInf w = True"
| "num_ge NegInf NegInf = True"
| "num_ge NegInf w = False"
| "num_ge (Fin a) PosInf = False"
| "num_ge (Fin a) NegInf = True"
| "num_ge (Fin a) (Fin b) = (b \<le> a)"

section \<open>Strings\<close>

text \<open>
  A string is a list of code units; a \<open>char\<close> stands for the code unit of the same
  number, so the strings of the model are those whose code units are below 256.
\<close>

definition isDigit :: "char \<Rightarrow> bool" where
  "isDigit c = (c \<in> set ''0123456789'')"

definition digitVal :: "char \<Rightarrow> nat" where
  "digitVal c = of_char c - 48"

definition digitChar :: "nat \<Rightarrow> char" where
  "digitChar d = ''0123456789'' ! d"

definition natOfDigits :: "string \<Rightarrow> nat" where
  "natOfDigits ds = foldl (\<lambda>a c. 10 * a + digitVal c) 0 ds"

fun digitsOf :: "nat \<Rightarrow> string" where
  "digitsOf n = (if n < 10 then [digitChar n] else digitsOf (n div 10) @ [digitChar (n mod 10)])"

declare digitsOf.simps [simp del]

text \<open>The white space that \<open>parseFloat\<close> skips: TAB, LF, VT, FF, CR, SP and NBSP.\<close>

definition isWhiteSpace :: "char \<Rightarrow> bool" where
  "isWhiteSpace c = ((of_char c :: nat) \<in> set [9, 10, 11, 12, 13, 32, 160])"

text \<open>\<open>String.prototype.toLowerCase\<close> on code units below 256.\<close>

definition lowerChar :: "char \<Rightarrow> char" where
  "lowerChar c =
     (let n = (of_char c :: nat)
      in if 65 \<le> n \<and> n \<le> 90 then ''abcdefghijklmnopqrstuvwxyz'' ! (n - 65)
         else if 192 \<le> n \<and> n \<le> 222 \<and> n \<noteq> 215 then char_of (n + 32)
         else c)"

definition toLowerCase :: "string \<Rightarrow> string" where
  "toLowerCase s = map lowerChar s"

text \<open>An optional sign at the head of a string: whether it is a minus, and the rest.\<close>

definition takeSign :: "string \<Rightarrow> bool \<times> string" where
  "takeSign t =
     (case t of
        [] \<Rightarrow> (False, t)
      | s # r \<Rightarrow> if s = CHR ''-'' then (True, r)
                 else if s = CHR ''+'' then (False, r)
                 else (False, t))"

text \<open>The exponent part at the head of a string (0 when there is none).\<close>

definition parseExponent :: "string \<Rightarrow> int" where
  "parseExponent r =
     (case r of
        [] \<Rightarrow> 0
      | e # r1 \<Rightarrow>
          if e \<noteq> CHR ''e'' \<and> e \<noteq> CHR ''E'' then 0
          else
            let (neg, r2) = takeSign r1;
                ds = takeWhile isDigit r2
            in if ds = [] then 0
               else if neg then - int (natOfDigits ds) else int (natOfDigits ds))"

text \<open>
  The global \<open>parseFloat\<close>: skip white space, read the longest prefix that is a decimal
  literal (sign, then \<open>Infinity\<close> or digits with an optional fraction and exponent), and
  round its value to a number; NaN when no prefix is a literal.
\<close>

definition parseFloat :: "string \<Rightarrow> number" where
  "parseFloat str =
     (let (neg, t1) = takeSign (dropWhile isWhiteSpace str)
      in if take 8 t1 = ''Infinity'' then signedInf (\<not> neg)
         else
           let ip = takeWhile isDigit t1;
               r1 = dropWhile isDigit t1;
               (fp, r2) = (case r1 of
                             [] \<Rightarrow> ([], r1)
                           | d # r \<Rightarrow> if d = CHR ''.''
                                      then (takeWhile isDigit r, dropWhile isDigit r)
                                      else ([], r1))
           in if ip = [] \<and> fp = [] then NaN
              else
                let v = of_nat (natOfDigits (ip @ fp)) * pow10 (parseExponent r2 - int (length fp))
                in fl (if neg then - v else v))"

text \<open>
  \<open>Number.prototype.toFixed\<close> with \<open>f\<close> fraction digits. A magnitude of at least
  \<open>10^21\<close> is printed by the host's number-to-string conversion, which is the
  parameter \<open>numToString\<close>.
\<close>

definition toFixed :: "(rat \<Rightarrow> string) \<Rightarrow> number \<Rightarrow> nat \<Rightarrow> string" where
  "toFixed numToString x f =
     (case x of
        NaN \<Rightarrow> ''NaN''
      | PosInf \<Rightarrow> ''Infinity''
      | NegInf \<Rightarrow> ''-Infinity''
      | Fin q \<Rightarrow>
          let s = (if q < 0 then ''-'' else '''');
              a = \<bar>q\<bar>
          in if 10 ^ 21 \<le> a then s @ numToString a
             else
               let n = nat \<lfloor>a * 10 ^ f + 1 / 2\<rfloor>;
                   m = digitsOf n
               in if f = 0 then s @ m
                  else
                    let m2 = (if length m \<le> f then replicate (f + 1 - length m) CHR ''0'' @ m else m);
                        k = length m2
                    in s @ take (k - f) m2 @ ''.'' @ drop (k - f) m2)"

section \<open>Constants and configuration\<close>

definition CURRENT_MONTH :: string where
  "CURRENT_MONTH = ''2024-07''"

definition UTILIZATION_THRESHOLDS_HIGH :: number where
  "UTILIZATION_THRESHOLDS_HIGH = Fin 80"

definition UTILIZATION_THRESHOLDS_MEDIUM :: number where
  "UTILIZATION_THRESHOLDS_MEDIUM = Fin 50"

definition COLORS_utilization_high :: string where
  "COLORS_utilization_high = ''#2e7d32''"

definition COLORS_utilization_medium :: string where
  "COLORS_utilization_medium = ''#ed6c02''"

definition COLORS_utilization_low :: string where
  "COLORS_utilization_low = ''#d32f2f''"

definition COLORS_earnings_positive :: string where
  "COLORS_earnings_positive = ''#2e7d32''"

definition COLORS_earnings_negative :: string where
  "COLORS_earnings_negative = ''#d32f2f''"

definition COLORS_neutral :: string where
  "COLORS_neutral = ''#666''"

definition MONTH_ORDER :: "(string \<times> int) list" where
  "MONTH_ORDER =
     [(''January'', 1), (''February'', 2), (''March'', 3), (''April'', 4), (''May'', 5),
      (''June'', 6), (''July'', 7), (''August'', 8), (''September'', 9), (''October'', 10),
      (''November'', 11), (''December'', 12)]"

text \<open>
  \<open>MONTH_ORDER\<close> is an object literal, so reading a key it does not own falls through
  to \<open>Object.prototype\<close>: these names yield a function or an object, every other name
  yields \<open>undefined\<close>.
\<close>

definition objectPrototypeKeys :: "string list" where
  "objectPrototypeKeys =
     [''constructor'', ''__defineGetter__'', ''__defineSetter__'', ''hasOwnProperty'',
      ''__lookupGetter__'', ''__lookupSetter__'', ''isPrototypeOf'', ''propertyIsEnumerable'',
      ''toString'', ''valueOf'', ''__proto__'', ''toLocaleString'']"

datatype jsvalue = Undefined | Num int | Object

definition MONTH_ORDER_get :: "string \<Rightarrow> jsvalue" where
  "MONTH_ORDER_get a =
     (case map_of MONTH_ORDER a of
        Some n \<Rightarrow> Num n
      | None \<Rightarrow> if a \<in> set objectPrototypeKeys then Object else Undefined)"

text \<open>\<open>v || 0\<close>: \<open>undefined\<close> and \<open>0\<close> are falsy, an object is truthy.\<close>

definition orZero :: "jsvalue \<Rightarrow> jsvalue" where
  "orZero v = (case v of Undefined \<Rightarrow> Num 0 | Num n \<Rightarrow> (if n = 0 then Num 0 else Num n) | Object \<Rightarrow> Object)"

text \<open>\<open>v - w\<close> on such values: an object converts to NaN, written \<open>None\<close>.\<close>

definition js_minus :: "jsvalue \<Rightarrow> jsvalue \<Rightarrow> int option" where
  "js_minus v w =
     (case v of
        Num a \<Rightarrow> (case w of Num b \<Rightarrow> Some (a - b) | _ \<Rightarrow> None)
      | _ \<Rightarrow> None)"

section \<open>Data model\<close>

text \<open>
  Modelled from the spec: the types \<open>SourceDataType\<close> and \<open>TableDataType\<close> are
  declared in the module \<open>./types\<close>, which is not among the sources. The records below
  follow the data model of the specification and the fields that the code reads; a field
  that the code reads through \<open>?.\<close>, tests for truthiness or defaults with \<open>||\<close> is
  optional. The entries of \<open>lastThreeMonthsIndividually\<close> have the type that the
  signature of \<open>getMonthUtilization\<close> gives them.
\<close>

record MonthRate =
  month :: string
  utilisationRate :: string

record QuarterEarning =
  name :: "string option"
  earnings :: "string option"

record MonthCost =
  cost_month :: "string option"
  costs :: "string option"

record WorkforceUtilisation =
  utilisationRateLastTwelveMonths :: "string option"
  utilisationRateYearToDate :: "string option"
  lastThreeMonthsIndividually :: "MonthRate list option"
  quarterEarnings :: "QuarterEarning list option"

record CostsByMonth =
  potentialEarningsByMonth :: "MonthCost list option"
  costsByMonth_arr :: "MonthCost list option"

record Entity =
  status :: string
  firstname :: string
  lastname :: string
  workforceUtilisation :: "WorkforceUtilisation option"
  costsByMonth :: "CostsByMonth option"

record SourceDataType =
  employees :: "Entity option"
  externals :: "Entity option"

text \<open>
  A table row is an object whose own properties are strings. Assigning to the key
  \<open>__proto__\<close> runs the inherited setter, which ignores a string: no property is made.
\<close>

type_synonym TableDataType = "string \<rightharpoonup> string"

definition setProp :: "TableDataType \<Rightarrow> string \<Rightarrow> string \<Rightarrow> TableDataType" where
  "setProp obj k v = (if k = ''__proto__'' then obj else obj(k \<mapsto> v))"

section \<open>Helper functions\<close>

text \<open>\<open>a || b\<close> on two optional objects (an object is truthy).\<close>

definition orElse :: "'a option \<Rightarrow> 'a option \<Rightarrow> 'a option" where
  "orElse a b = (case a of Some x \<Rightarrow> Some x | None \<Rightarrow> b)"

text \<open>\<open>s || "0"\<close> on an optional string (the empty string is falsy).\<close>

definition orZeroString :: "string option \<Rightarrow> string" where
  "orZeroString s = (case s of None \<Rightarrow> ''0'' | Some t \<Rightarrow> if t = [] then ''0'' else t)"

definition formatPercentage :: "(rat \<Rightarrow> string) \<Rightarrow> number option \<Rightarrow> string" where
  "formatPercentage numToString v =
     (case v of
        None \<Rightarrow> ''0%''
      | Some x \<Rightarrow> if isNaN x then ''0%'' else toFixed numToString (num_mul x (Fin 100)) 0 @ ''%'')"

definition formatCurrency :: "(rat \<Rightarrow> string) \<Rightarrow> number option \<Rightarrow> string" where
  "formatCurrency numToString v =
     (case v of
        None \<Rightarrow> ''0.00 EUR''
      | Some x \<Rightarrow> if isNaN x then ''0.00 EUR'' else toFixed numToString x 2 @ '' EUR'')"

definition getUtilizationColor :: "string \<Rightarrow> string" where
  "getUtilizationColor percentageString =
     (let numValue = parseFloat percentageString
      in if isNaN numValue then COLORS_neutral
         else if num_ge numValue UTILIZATION_THRESHOLDS_HIGH then COLORS_utilization_high
         else if num_ge numValue UTILIZATION_THRESHOLDS_MEDIUM then COLORS_utilization_medium
         else COLORS_utilization_low)"

text \<open>The characters that the pattern \<open>[^\d.-]\<close> leaves in place.\<close>

definition keptByPattern :: "char \<Rightarrow> bool" where
  "keptByPattern c = (isDigit c \<or> c = CHR ''.'' \<or> c = CHR ''-'')"

definition getEarningsColor :: "string \<Rightarrow> string" where
  "getEarningsColor currencyString =
     (let numValue = parseFloat (filter keptByPattern currencyString)
      in if isNaN numValue then COLORS_neutral
         else if num_ge numValue (Fin 0) then COLORS_earnings_positive
         else COLORS_earnings_negative)"

definition getMonthUtilization :: "MonthRate list option \<Rightarrow> string \<Rightarrow> number option" where
  "getMonthUtilization lastThreeMonths monthName =
     (case lastThreeMonths of
        None \<Rightarrow> None
      | Some ms \<Rightarrow>
          (case find (\<lambda>m. toLowerCase (month m) = toLowerCase monthName) ms of
             None \<Rightarrow> None
           | Some monthData \<Rightarrow> Some (parseFloat (utilisationRate monthData))))"

text \<open>\<open>Set.prototype.add\<close>: the set keeps insertion order.\<close>

definition setAdd :: "string list \<Rightarrow> string \<Rightarrow> string list" where
  "setAdd s x = (if x \<in> set s then s else s @ [x])"

text \<open>
  \<open>Array.prototype.sort\<close> with a comparator: a stable sort, where a comparator result of
  NaN counts as 0. It is written as an insertion sort, which is what every stable sort
  computes when the comparator is consistent.
\<close>

definition sortCompare :: "('a \<Rightarrow> 'a \<Rightarrow> int option) \<Rightarrow> 'a \<Rightarrow> 'a \<Rightarrow> int" where
  "sortCompare cmp a b = (case cmp a b of None \<Rightarrow> 0 | Some v \<Rightarrow> v)"

fun insertSorted :: "('a \<Rightarrow> 'a \<Rightarrow> int option) \<Rightarrow> 'a \<Rightarrow> 'a list \<Rightarrow> 'a list" where
  "insertSorted cmp x [] = [x]"
| "insertSorted cmp x (y # ys) =
     (if sortCompare cmp x y \<le> 0 then x # y # ys else y # insertSorted cmp x ys)"

definition arraySort :: "('a \<Rightarrow> 'a \<Rightarrow> int option) \<Rightarrow> 'a list \<Rightarrow> 'a list" where
  "arraySort cmp xs = foldr (insertSorted cmp) xs []"

definition monthCompare :: "string \<Rightarrow> string \<Rightarrow> int option" where
  "monthCompare a b = js_minus (orZero (MONTH_ORDER_get a)) (orZero (MONTH_ORDER_get b))"

definition resolveEntity :: "SourceDataType \<Rightarrow> Entity option" where
  "resolveEntity row = orElse (employees row) (externals row)"

definition collectMonths :: "string list \<Rightarrow> SourceDataType \<Rightarrow> string list" where
  "collectMonths monthsSet row =
     (case resolveEntity row of
        None \<Rightarrow> monthsSet
      | Some entity \<Rightarrow>
          (case workforceUtilisation entity of
             None \<Rightarrow> monthsSet
           | Some w \<Rightarrow>
               (case lastThreeMonthsIndividually w of
                  None \<Rightarrow> monthsSet
                | Some items \<Rightarrow>
                    foldl (\<lambda>s item. if month item \<noteq> [] then setAdd s (month item) else s)
                      monthsSet items)))"

definition getAvailableMonths :: "SourceDataType list \<Rightarrow> string list" where
  "getAvailableMonths data = arraySort monthCompare (foldl collectMonths [] data)"

definition costsOf :: "Entity option \<Rightarrow> number" where
  "costsOf entity =
     (case orElse (Option.bind (Option.bind entity costsByMonth) potentialEarningsByMonth)
                  (Option.bind (Option.bind entity costsByMonth) costsByMonth_arr) of
        None \<Rightarrow> Fin 0
      | Some cs \<Rightarrow>
          (case find (\<lambda>m. cost_month m = Some CURRENT_MONTH) cs of
             None \<Rightarrow> Fin 0
           | Some currentMonthData \<Rightarrow> parseFloat (orZeroString (costs currentMonthData))))"

definition revenueOf :: "Entity option \<Rightarrow> number" where
  "revenueOf entity =
     (case Option.bind (Option.bind entity workforceUtilisation) quarterEarnings of
        None \<Rightarrow> Fin 0
      | Some qs \<Rightarrow>
          (case find (\<lambda>q. name q = Some ''Q3'') qs of
             None \<Rightarrow> Fin 0
           | Some q3 \<Rightarrow> num_div (parseFloat (orZeroString (earnings q3))) (Fin 3)))"

definition calculateNetEarningsPrevMonth :: "Entity option \<Rightarrow> number option" where
  "calculateNetEarningsPrevMonth entity = Some (num_sub (revenueOf entity) (costsOf entity))"

text \<open>\<open>s ? parseFloat(s) : null\<close> on an optional string.\<close>

definition parseOrNull :: "string option \<Rightarrow> number option" where
  "parseOrNull s = (case s of None \<Rightarrow> None | Some t \<Rightarrow> if t = [] then None else Some (parseFloat t))"

definition isActive :: "SourceDataType \<Rightarrow> bool" where
  "isActive dataRow = (case resolveEntity dataRow of None \<Rightarrow> False | Some entity \<Rightarrow> status entity = ''active'')"

definition personOf :: "Entity \<Rightarrow> bool \<Rightarrow> string" where
  "personOf entity isExternal =
     firstname entity @ '' '' @ lastname entity @ (if isExternal then '' (External)'' else '''')"

text \<open>The object literal that a row starts as.\<close>

definition baseRow :: "(rat \<Rightarrow> string) \<Rightarrow> Entity \<Rightarrow> bool \<Rightarrow> TableDataType" where
  "baseRow numToString entity isExternal =
     (let workforce = workforceUtilisation entity
      in [''person'' \<mapsto> personOf entity isExternal,
          ''past12Months'' \<mapsto>
            formatPercentage numToString
              (parseOrNull (Option.bind workforce utilisationRateLastTwelveMonths)),
          ''y2d'' \<mapsto>
            formatPercentage numToString
              (parseOrNull (Option.bind workforce utilisationRateYearToDate)),
          ''netEarningsPrevMonth'' \<mapsto>
            formatCurrency numToString (calculateNetEarningsPrevMonth (Some entity))])"

text \<open>The value that the loop over the months assigns under one month.\<close>

definition monthCell :: "(rat \<Rightarrow> string) \<Rightarrow> Entity \<Rightarrow> string \<Rightarrow> string" where
  "monthCell numToString entity m =
     formatPercentage numToString
       (getMonthUtilization
          (Option.bind (workforceUtilisation entity) lastThreeMonthsIndividually) m)"

text \<open>The callback of \<open>map\<close>: \<open>None\<close> is its \<open>null\<close>.\<close>

definition toRow :: "(rat \<Rightarrow> string) \<Rightarrow> string list \<Rightarrow> SourceDataType \<Rightarrow> TableDataType option" where
  "toRow numToString monthsToMap dataRow =
     (case resolveEntity dataRow of
        None \<Rightarrow> None
      | Some entity \<Rightarrow>
          let isExternal = (externals dataRow \<noteq> None)
          in Some (foldl (\<lambda>rowData m. setProp rowData m (monthCell numToString entity m))
                     (baseRow numToString entity isExternal) monthsToMap))"

fun dropNulls :: "'a option list \<Rightarrow> 'a list" where
  "dropNulls [] = []"
| "dropNulls (None # rs) = dropNulls rs"
| "dropNulls (Some r # rs) = r # dropNulls rs"

definition transformToTableData ::
  "(rat \<Rightarrow> string) \<Rightarrow> SourceDataType list \<Rightarrow> string list \<Rightarrow> TableDataType list" where
  "transformToTableData numToString dataRows monthsToMap =
     dropNulls (map (toRow numToString monthsToMap) (filter isActive dataRows))"

section \<open>Notions of the specification\<close>

text \<open>The sign that a fixed-point rendering of \<open>q\<close> starts with.\<close>

definition signOf :: "rat \<Rightarrow> string" where
  "signOf q = (if q < 0 then ''-'' else [])"

text \<open>A magnitude rounded to the nearest integer, the half rounding up.\<close>

definition roundHalfUp :: "rat \<Rightarrow> nat" where
  "roundHalfUp a = nat \<lfloor>a + 1 / 2\<rfloor>"

text \<open>
  A fixed-point numeral with \<open>f\<close> decimal places: an optional minus sign, one or more
  digits and, when \<open>f\<close> is not 0, a dot followed by exactly \<open>f\<close> digits.
\<close>

definition stripMinus :: "string \<Rightarrow> string" where
  "stripMinus s = (case s of [] \<Rightarrow> s | c # r \<Rightarrow> if c = CHR ''-'' then r else s)"

definition isFixedPoint :: "nat \<Rightarrow> string \<Rightarrow> bool" where
  "isFixedPoint f s =
     (let ip = takeWhile isDigit (stripMinus s);
          r = dropWhile isDigit (stripMinus s)
      in ip \<noteq> [] \<and>
         (if f = 0 then r = []
          else (case r of
                  [] \<Rightarrow> False
                | d # fp \<Rightarrow> d = CHR ''.'' \<and> length fp = f \<and> list_all isDigit fp)))"

definition isCurrencyString :: "string \<Rightarrow> bool" where
  "isCurrencyString s =
     (4 \<le> length s \<and> drop (length s - 4) s = '' EUR''
      \<and> isFixedPoint 2 (take (length s - 4) s))"

definition isRatioString :: "string \<Rightarrow> bool" where
  "isRatioString s =
     (1 \<le> length s \<and> drop (length s - 1) s = ''%''
      \<and> isFixedPoint 0 (take (length s - 1) s))"

text \<open>The cost table of an entity: the first of the two alternative fields that is there.\<close>

definition costTable :: "Entity \<Rightarrow> MonthCost list option" where
  "costTable e =
     (case costsByMonth e of
        None \<Rightarrow> None
      | Some t \<Rightarrow> (case potentialEarningsByMonth t of Some cs \<Rightarrow> Some cs | None \<Rightarrow> costsByMonth_arr t))"

text \<open>The entry of the cost table for the target period \<open>2024-07\<close>: the first that matches.\<close>

definition costEntry :: "Entity \<Rightarrow> MonthCost option" where
  "costEntry e =
     (case costTable e of
        None \<Rightarrow> None
      | Some cs \<Rightarrow> find (\<lambda>m. cost_month m = Some ''2024-07'') cs)"

text \<open>The quarter entry named \<open>Q3\<close>: the first that matches.\<close>

definition quarterEntry :: "Entity \<Rightarrow> QuarterEarning option" where
  "quarterEntry e =
     (case workforceUtilisation e of
        None \<Rightarrow> None
      | Some w \<Rightarrow>
          (case quarterEarnings w of
             None \<Rightarrow> None
           | Some qs \<Rightarrow> find (\<lambda>q. name q = Some ''Q3'') qs))"

text \<open>An optional numeric string as an amount: absent or empty counts as 0.\<close>

definition amountOf :: "string option \<Rightarrow> number" where
  "amountOf s = (case s of None \<Rightarrow> Fin 0 | Some t \<Rightarrow> if t = [] then Fin 0 else parseFloat t)"

text \<open>The utilization tiers and the earnings signs, with the colour of each.\<close>

datatype tier = High | Medium | Low | NeutralTier

datatype earningsSign = Positive | Negative | NeutralSign

definition utilizationTier :: "string \<Rightarrow> tier" where
  "utilizationTier s =
     (case parseFloat s of
        NaN \<Rightarrow> NeutralTier
      | PosInf \<Rightarrow> High
      | NegInf \<Rightarrow> Low
      | Fin q \<Rightarrow> if 80 \<le> q then High else if 50 \<le> q then Medium else Low)"

definition earningsSignOf :: "string \<Rightarrow> earningsSign" where
  "earningsSignOf s =
     (case parseFloat (filter (\<lambda>c. c \<in> set ''0123456789.-'') s) of
        NaN \<Rightarrow> NeutralSign
      | PosInf \<Rightarrow> Positive
      | NegInf \<Rightarrow> Negative
      | Fin q \<Rightarrow> if 0 \<le> q then Positive else Negative)"

fun tierColor :: "tier \<Rightarrow> string" where
  "tierColor High = ''#2e7d32''"
| "tierColor Medium = ''#ed6c02''"
| "tierColor Low = ''#d32f2f''"
| "tierColor NeutralTier = ''#666''"

fun signColor :: "earningsSign \<Rightarrow> string" where
  "signColor Positive = ''#2e7d32''"
| "signColor Negative = ''#d32f2f''"
| "signColor NeutralSign = ''#666''"

text \<open>The keys of the four fixed columns of a row.\<close>

definition fixedKeys :: "string set" where
  "fixedKeys = {''person'', ''past12Months'', ''y2d'', ''netEarningsPrevMonth''}"

text \<open>The key that the month lookup sorts by: the month number, 0 for any other label.\<close>

definition monthKey :: "string \<Rightarrow> int" where
  "monthKey a = (case map_of MONTH_ORDER a of Some n \<Rightarrow> n | None \<Rightarrow> 0)"

text \<open>The non-empty month labels of the resolved entities, in order of appearance.\<close>

definition monthLabels :: "SourceDataType list \<Rightarrow> string list" where
  "monthLabels data =
     concat (map (\<lambda>row.
        case resolveEntity row of
          None \<Rightarrow> []
        | Some entity \<Rightarrow>
            (case Option.bind (workforceUtilisation entity) lastThreeMonthsIndividually of
               None \<Rightarrow> []
             | Some items \<Rightarrow> filter (\<lambda>l. l \<noteq> []) (map month items))) data)"

section \<open>Evaluation lemmas\<close>

lemmas string_defs = isDigit_def digitVal_def natOfDigits_def isWhiteSpace_def
  takeSign_def parseExponent_def pow10_def

lemma floor_rat_divide_numeral [simp]:
  "\<lfloor>numeral a / numeral b :: rat\<rfloor> = numeral a div numeral b"
  by (metis floor_divide_of_int_eq of_int_numeral)

lemma floor_rat_one_divide_numeral [simp]:
  "\<lfloor>1 / numeral b :: rat\<rfloor> = 1 div numeral b"
  by (metis floor_divide_of_int_eq of_int_1 of_int_numeral)

lemma ceiling_rat_divide_numeral [simp]:
  "\<lceil>numeral a / numeral b :: rat\<rceil> = - (- numeral a div numeral b)"
  by (metis ceiling_def floor_divide_of_int_eq minus_divide_left of_int_minus of_int_numeral)

lemma nbits_zero: "nbits 0 = 0"
  by (simp add: nbits.simps)

lemma nbits_pos: "0 < n \<Longrightarrow> nbits n = Suc (nbits (n div 2))"
  by (subst nbits.simps) simp

lemma digitsOf_small: "n < 10 \<Longrightarrow> digitsOf n = [digitChar n]"
  by (subst digitsOf.simps) simp

lemma digitsOf_step: "10 \<le> n \<Longrightarrow> digitsOf n = digitsOf (n div 10) @ [digitChar (n mod 10)]"
  by (subst digitsOf.simps) simp

lemma digitChar_isDigit: "d < 10 \<Longrightarrow> isDigit (digitChar d)"
proof -
  assume "d < 10"
  then have "d \<in> {0, 1, 2, 3, 4, 5, 6, 7, 8, 9}" by auto
  then show ?thesis by (auto simp: digitChar_def isDigit_def)
qed

lemma digitVal_digitChar: "d < 10 \<Longrightarrow> digitVal (digitChar d) = d"
proof -
  assume "d < 10"
  then have "d \<in> {0, 1, 2, 3, 4, 5, 6, 7, 8, 9}" by auto
  then show ?thesis by (auto simp: digitChar_def digitVal_def)
qed

lemma digitsOf_all_digits: "list_all isDigit (digitsOf n)"
proof (induction n rule: digitsOf.induct)
  case (1 n)
  show ?case
  proof (cases "n < 10")
    case True
    then show ?thesis by (simp add: digitsOf_small digitChar_isDigit)
  next
    case False
    then show ?thesis using 1 by (simp add: digitsOf_step digitChar_isDigit)
  qed
qed

lemma digitsOf_nonempty: "digitsOf n \<noteq> []"
  by (subst digitsOf.simps) simp

lemma natOfDigits_snoc: "natOfDigits (ds @ [c]) = 10 * natOfDigits ds + digitVal c"
  by (simp add: natOfDigits_def)

text \<open>The digits printed for \<open>n\<close> are its decimal numeral: reading them back gives \<open>n\<close>.\<close>

lemma natOfDigits_digitsOf: "natOfDigits (digitsOf n) = n"
proof (induction n rule: digitsOf.induct)
  case (1 n)
  show ?case
  proof (cases "n < 10")
    case True
    then show ?thesis by (simp add: digitsOf_small natOfDigits_def digitVal_digitChar)
  next
    case False
    then have "natOfDigits (digitsOf n) =
                 10 * natOfDigits (digitsOf (n div 10)) + digitVal (digitChar (n mod 10))"
      by (simp add: digitsOf_step natOfDigits_snoc)
    also have "\<dots> = 10 * (n div 10) + n mod 10"
      using 1 False by (simp add: digitVal_digitChar)
    finally show ?thesis by simp
  qed
qed

text \<open>Rounding leaves these small values as they are.\<close>

lemma fl_zero: "fl 0 = Fin 0"
  by (simp add: fl_def)

lemma fl_50: "fl 50 = Fin 50"
  apply (simp add: fl_def Let_def)
  apply (simp add: ilog2_def nbits_zero nbits_pos)
  apply (simp add: pow2_def)
  apply (simp add: roundHalfEven_def Let_def)
  done

lemma fl_85: "fl 85 = Fin 85"
  apply (simp add: fl_def Let_def)
  apply (simp add: ilog2_def nbits_zero nbits_pos)
  apply (simp add: pow2_def)
  apply (simp add: roundHalfEven_def Let_def)
  done

lemma fl_100: "fl 100 = Fin 100"
  apply (simp add: fl_def Let_def)
  apply (simp add: ilog2_def nbits_zero nbits_pos)
  apply (simp add: pow2_def)
  apply (simp add: roundHalfEven_def Let_def)
  done

lemma fl_300: "fl 300 = Fin 300"
  apply (simp add: fl_def Let_def)
  apply (simp add: ilog2_def nbits_zero nbits_pos)
  apply (simp add: pow2_def)
  apply (simp add: roundHalfEven_def Let_def)
  done

lemma fl_quarter: "fl (1 / 4) = Fin (1 / 4)"
  apply (simp add: fl_def Let_def)
  apply (simp add: ilog2_def nbits_zero nbits_pos)
  apply (simp add: pow2_def)
  apply (simp add: roundHalfEven_def Let_def)
  done

lemma parseFloat_0: "parseFloat ''0'' = Fin 0"
  by (simp add: parseFloat_def string_defs fl_zero)

lemma parseFloat_100: "parseFloat ''100'' = Fin 100"
  by (simp add: parseFloat_def string_defs fl_100)

lemma parseFloat_300: "parseFloat ''300'' = Fin 300"
  by (simp add: parseFloat_def string_defs fl_300)

lemma parseFloat_quarter: "parseFloat ''0.25'' = Fin (1 / 4)"
  by (simp add: parseFloat_def string_defs fl_quarter)

lemma parseFloat_abc: "parseFloat ''abc'' = NaN"
  by (simp add: parseFloat_def string_defs)

lemma parseFloat_Infinity: "parseFloat ''Infinity'' = PosInf"
  by (simp add: parseFloat_def string_defs signedInf_def)

lemma toFixed_zero_2: "toFixed ts (Fin 0) 2 = ''0.00''"
  by (simp add: toFixed_def digitsOf_small digitChar_def Let_def)

section \<open>Lists and options\<close>

lemma find_first_match:
  "list_all (\<lambda>m. \<not> P m) pre \<Longrightarrow> P e \<Longrightarrow> find P (pre @ e # post) = Some e"
  by (induction pre) simp_all

lemma find_no_match: "list_all (\<lambda>m. \<not> P m) ms \<Longrightarrow> find P ms = None"
  by (induction ms) simp_all

lemma dropNulls_map_Some: "dropNulls (map Some xs) = xs"
  by (induction xs) simp_all

section \<open>The row assembler\<close>

lemma isActive_cases:
  "isActive r =
     (case employees r of
        Some e \<Rightarrow> status e = ''active''
      | None \<Rightarrow> (case externals r of Some e \<Rightarrow> status e = ''active'' | None \<Rightarrow> False))"
  by (simp add: isActive_def resolveEntity_def orElse_def split: option.splits)

lemma toRow_active: "isActive r \<Longrightarrow> \<exists>row. toRow ts months r = Some row"
  by (cases "resolveEntity r") (simp_all add: isActive_def toRow_def Let_def)

lemma toRow_filter_active:
  "map Some (dropNulls (map (toRow ts months) (filter isActive rs))) =
     map (toRow ts months) (filter isActive rs)"
proof (induction rs)
  case Nil
  show ?case by simp
next
  case (Cons r rs)
  show ?case
  proof (cases "isActive r")
    case True
    then obtain row where "toRow ts months r = Some row"
      using toRow_active by blast
    with True Cons show ?thesis by simp
  next
    case False
    with Cons show ?thesis by simp
  qed
qed

section \<open>Fixed-point printing\<close>

lemma toFixed_0: "\<bar>q\<bar> < 10 ^ 21 \<Longrightarrow> toFixed ts (Fin q) 0 = signOf q @ digitsOf (roundHalfUp \<bar>q\<bar>)"
  by (simp add: toFixed_def Let_def signOf_def roundHalfUp_def)

lemma digitsOf_hundreds:
  "100 \<le> n \<Longrightarrow>
     digitsOf n = digitsOf (n div 100) @ [digitChar (n div 10 mod 10), digitChar (n mod 10)]"
proof -
  assume h: "100 \<le> n"
  then have a: "digitsOf n = digitsOf (n div 10) @ [digitChar (n mod 10)]"
    by (simp add: digitsOf_step)
  from h have "10 \<le> n div 10" by simp
  then have "digitsOf (n div 10) = digitsOf (n div 10 div 10) @ [digitChar (n div 10 mod 10)]"
    by (rule digitsOf_step)
  moreover have "n div 10 div 10 = n div 100"
    by (simp add: div_mult2_eq [symmetric])
  ultimately show ?thesis using a by simp
qed

lemma pad_split:
  assumes "m2 = (if length (digitsOf n) \<le> 2
                 then replicate (2 + 1 - length (digitsOf n)) CHR ''0'' @ digitsOf n
                 else digitsOf n)"
  shows "take (length m2 - 2) m2 = digitsOf (n div 100)
         \<and> drop (length m2 - 2) m2 = [digitChar (n div 10 mod 10), digitChar (n mod 10)]"
proof -
  consider "n < 10" | "10 \<le> n" "n < 100" | "100 \<le> n" by linarith
  then show ?thesis
  proof cases
    case 1
    then have "digitsOf n = [digitChar n]" by (simp add: digitsOf_small)
    then have "m2 = [CHR ''0'', CHR ''0'', digitChar n]"
      by (simp add: assms numeral_2_eq_2)
    then show ?thesis using 1 by (simp add: digitsOf_small digitChar_def)
  next
    case 2
    then have "n div 10 < 10" by simp
    then have "digitsOf n = [digitChar (n div 10), digitChar (n mod 10)]"
      using 2 by (simp add: digitsOf_step digitsOf_small)
    then have "m2 = [CHR ''0'', digitChar (n div 10), digitChar (n mod 10)]"
      by (simp add: assms)
    then show ?thesis using 2 by (simp add: digitsOf_small digitChar_def)
  next
    case 3
    then have m: "digitsOf n = digitsOf (n div 100) @ [digitChar (n div 10 mod 10), digitChar (n mod 10)]"
      by (simp add: digitsOf_hundreds)
    have "digitsOf (n div 100) \<noteq> []" by (rule digitsOf_nonempty)
    then have "0 < length (digitsOf (n div 100))" by simp
    then have "m2 = digitsOf n" using m by (simp add: assms)
    then show ?thesis using m by simp
  qed
qed

lemma toFixed_2:
  assumes "\<bar>q\<bar> < 10 ^ 21"
  shows "toFixed ts (Fin q) 2 =
       signOf q @ digitsOf (roundHalfUp (\<bar>q\<bar> * 100) div 100) @ ''.'' @
         [digitChar (roundHalfUp (\<bar>q\<bar> * 100) div 10 mod 10),
          digitChar (roundHalfUp (\<bar>q\<bar> * 100) mod 10)]"
proof -
  define n where "n = roundHalfUp (\<bar>q\<bar> * 100)"
  define m2 where
    "m2 = (if length (digitsOf n) \<le> 2
           then replicate (2 + 1 - length (digitsOf n)) CHR ''0'' @ digitsOf n
           else digitsOf n)"
  have n: "nat \<lfloor>\<bar>q\<bar> * 100 + 1 / 2\<rfloor> = n"
    by (simp add: n_def roundHalfUp_def)
  have "toFixed ts (Fin q) 2 = signOf q @ take (length m2 - 2) m2 @ ''.'' @ drop (length m2 - 2) m2"
    using assms by (simp add: toFixed_def Let_def n m2_def signOf_def)
  moreover have "take (length m2 - 2) m2 = digitsOf (n div 100)"
    and "drop (length m2 - 2) m2 = [digitChar (n div 10 mod 10), digitChar (n mod 10)]"
    using pad_split [OF m2_def] by simp_all
  ultimately show ?thesis by (simp add: n_def)
qed

lemma isFixedPoint_rendering:
  assumes "b < 10" and "c < 10"
  shows "isFixedPoint 2 (signOf q @ digitsOf a @ ''.'' @ [digitChar b, digitChar c])"
proof -
  define body where "body = digitsOf a @ CHR ''.'' # [digitChar b, digitChar c]"
  obtain d ds where dds: "digitsOf a = d # ds"
    using digitsOf_nonempty [of a] by (cases "digitsOf a") auto
  have all: "\<forall>x\<in>set (digitsOf a). isDigit x"
    using digitsOf_all_digits [of a] by (simp add: list_all_iff)
  then have "isDigit d"
    by (simp add: dds)
  then have d: "d \<noteq> CHR ''-''"
    by (auto simp: isDigit_def)
  have dot: "\<not> isDigit CHR ''.''"
    by (simp add: isDigit_def)
  have tw: "takeWhile isDigit body = digitsOf a"
    unfolding body_def using all dot by (subst takeWhile_append2) auto
  have dw: "dropWhile isDigit body = CHR ''.'' # [digitChar b, digitChar c]"
    unfolding body_def using all dot by (subst dropWhile_append2) auto
  have fr: "list_all isDigit [digitChar b, digitChar c]"
    using assms by (simp add: digitChar_isDigit)
  have "body = d # (ds @ CHR ''.'' # [digitChar b, digitChar c])"
    by (simp add: body_def dds)
  then have "stripMinus body = body"
    using d by (simp add: stripMinus_def)
  moreover have "stripMinus (CHR ''-'' # body) = body"
    by (simp add: stripMinus_def)
  moreover have "signOf q @ digitsOf a @ ''.'' @ [digitChar b, digitChar c] =
                   (if q < 0 then CHR ''-'' # body else body)"
    by (simp add: signOf_def body_def)
  ultimately have "stripMinus (signOf q @ digitsOf a @ ''.'' @ [digitChar b, digitChar c]) = body"
    by simp
  then show ?thesis
    unfolding isFixedPoint_def Let_def using tw dw fr digitsOf_nonempty [of a] by simp
qed

lemma formatCurrency_shape:
  assumes "\<bar>q\<bar> < 10 ^ 21"
  shows "isCurrencyString (formatCurrency ts (Some (Fin q)))"
proof -
  define n where "n = roundHalfUp (\<bar>q\<bar> * 100)"
  define amount where
    "amount = signOf q @ digitsOf (n div 100) @ ''.'' @ [digitChar (n div 10 mod 10), digitChar (n mod 10)]"
  have "formatCurrency ts (Some (Fin q)) = amount @ '' EUR''"
    using toFixed_2 [OF assms, of ts] by (simp add: formatCurrency_def isNaN_def amount_def n_def)
  moreover have "isFixedPoint 2 amount"
    unfolding amount_def by (rule isFixedPoint_rendering) simp_all
  ultimately show ?thesis
    by (simp add: isCurrencyString_def)
qed

lemma formatPercentage_shape:
  assumes "num_mul (Fin q) (Fin 100) = Fin p" and "\<bar>p\<bar> < 10 ^ 21"
  shows "isRatioString (formatPercentage ts (Some (Fin q)))"
proof -
  define body where "body = digitsOf (roundHalfUp \<bar>p\<bar>)"
  obtain d ds where dds: "body = d # ds"
    using digitsOf_nonempty [of "roundHalfUp \<bar>p\<bar>"] by (cases body) (auto simp: body_def)
  have all: "\<forall>x\<in>set body. isDigit x"
    using digitsOf_all_digits [of "roundHalfUp \<bar>p\<bar>"] by (simp add: list_all_iff body_def)
  then have "isDigit d"
    by (simp add: dds)
  then have d: "d \<noteq> CHR ''-''"
    by (auto simp: isDigit_def)
  have tw: "takeWhile isDigit body = body" and dw: "dropWhile isDigit body = []"
    using all by simp_all
  have "stripMinus body = body"
    using d by (simp add: stripMinus_def dds)
  moreover have "stripMinus (CHR ''-'' # body) = body"
    by (simp add: stripMinus_def)
  moreover have "signOf p @ body = (if p < 0 then CHR ''-'' # body else body)"
    by (simp add: signOf_def)
  ultimately have "stripMinus (signOf p @ body) = body"
    by simp
  then have fixed: "isFixedPoint 0 (signOf p @ body)"
    unfolding isFixedPoint_def Let_def using tw dw by (simp add: dds)
  have "formatPercentage ts (Some (Fin q)) = (signOf p @ body) @ ''%''"
    using assms(1) toFixed_0 [OF assms(2), of ts]
    by (simp add: formatPercentage_def isNaN_def body_def)
  then show ?thesis
    using fixed by (simp add: isRatioString_def)
qed

section \<open>The earnings calculator\<close>

lemma amountOf_orZeroString: "parseFloat (orZeroString s) = amountOf s"
  by (simp add: orZeroString_def amountOf_def parseFloat_0 split: option.splits)

lemma costsOf_entry:
  "costsOf (Some e) = (case costEntry e of None \<Rightarrow> Fin 0 | Some c \<Rightarrow> amountOf (costs c))"
  by (simp add: costsOf_def costEntry_def costTable_def orElse_def CURRENT_MONTH_def
      amountOf_orZeroString split: option.splits)

lemma revenueOf_entry:
  "revenueOf (Some e) =
     (case quarterEntry e of None \<Rightarrow> Fin 0 | Some q \<Rightarrow> num_div (amountOf (earnings q)) (Fin 3))"
  by (simp add: revenueOf_def quarterEntry_def amountOf_orZeroString split: option.splits)

lemma num_sub_NaN: "isNaN v \<or> isNaN w \<Longrightarrow> num_sub v w = NaN"
  by (cases v; cases w) (simp_all add: isNaN_def)

section \<open>Rows as objects\<close>

lemma foldl_setProp_agree:
  "rd1 k = rd2 k \<Longrightarrow>
     foldl (\<lambda>rd m. setProp rd m (f m)) rd1 ms k = foldl (\<lambda>rd m. setProp rd m (f m)) rd2 ms k"
proof (induction ms arbitrary: rd1 rd2)
  case Nil
  then show ?case by simp
next
  case (Cons m ms)
  have "setProp rd1 m (f m) k = setProp rd2 m (f m) k"
    using Cons.prems by (simp add: setProp_def)
  then have "foldl (\<lambda>rd m. setProp rd m (f m)) (setProp rd1 m (f m)) ms k =
             foldl (\<lambda>rd m. setProp rd m (f m)) (setProp rd2 m (f m)) ms k"
    by (rule Cons.IH)
  then show ?case by simp
qed

lemma foldl_setProp_notin:
  "k \<notin> set ms \<Longrightarrow> foldl (\<lambda>rd m. setProp rd m (f m)) rd0 ms k = rd0 k"
proof (induction ms arbitrary: rd0)
  case Nil
  show ?case by simp
next
  case (Cons m ms)
  then have "foldl (\<lambda>rd m. setProp rd m (f m)) (setProp rd0 m (f m)) ms k = setProp rd0 m (f m) k"
    by simp
  also have "\<dots> = rd0 k"
    using Cons.prems by (simp add: setProp_def)
  finally show ?case by simp
qed

lemma foldl_setProp_in:
  "k \<in> set ms \<Longrightarrow> k \<noteq> ''__proto__'' \<Longrightarrow>
     foldl (\<lambda>rd m. setProp rd m (f m)) rd0 ms k = Some (f k)"
proof (induction ms arbitrary: rd0)
  case Nil
  then show ?case by simp
next
  case (Cons m ms)
  show ?case
  proof (cases "k \<in> set ms")
    case True
    then show ?thesis using Cons by simp
  next
    case False
    then have "k = m" using Cons.prems by simp
    then have "setProp rd0 m (f m) k = Some (f k)"
      using Cons.prems by (simp add: setProp_def)
    then show ?thesis
      using False foldl_setProp_notin [of k ms f "setProp rd0 m (f m)"] by simp
  qed
qed

lemma dom_foldl_setProp:
  "dom (foldl (\<lambda>rd m. setProp rd m (f m)) rd0 ms) = dom rd0 \<union> (set ms - {''__proto__''})"
  by (induction ms arbitrary: rd0) (auto simp: setProp_def)

lemma dom_baseRow: "dom (baseRow ts e x) = fixedKeys"
  by (auto simp: baseRow_def fixedKeys_def Let_def)

lemma toRow_resolved:
  "resolveEntity r = Some e \<Longrightarrow>
     toRow ts months r =
       Some (foldl (\<lambda>rowData m. setProp rowData m (monthCell ts e m))
               (baseRow ts e (externals r \<noteq> None)) months)"
  by (simp add: toRow_def Let_def)

lemma transform_single_active:
  "resolveEntity r = Some e \<Longrightarrow> status e = ''active'' \<Longrightarrow>
     transformToTableData ts [r] months =
       [foldl (\<lambda>rowData m. setProp rowData m (monthCell ts e m))
          (baseRow ts e (externals r \<noteq> None)) months]"
  by (simp add: transformToTableData_def isActive_def toRow_resolved)

lemma transform_single_inactive:
  "resolveEntity r = Some e \<Longrightarrow> status e \<noteq> ''active'' \<Longrightarrow>
     transformToTableData ts [r] months = []"
  by (simp add: transformToTableData_def isActive_def)

lemma transform_single_fixed_cell:
  "resolveEntity r = Some e \<Longrightarrow> status e = ''active'' \<Longrightarrow> k \<notin> set months \<Longrightarrow>
     map (\<lambda>row. row k) (transformToTableData ts [r] months) =
       [baseRow ts e (externals r \<noteq> None) k]"
  by (simp add: transform_single_active foldl_setProp_notin)

lemma baseRow_person: "baseRow ts e x ''person'' = Some (personOf e x)"
  by (simp add: baseRow_def Let_def)

lemma baseRow_other: "k \<noteq> ''person'' \<Longrightarrow> baseRow ts e x k = baseRow ts e y k"
  by (simp add: baseRow_def Let_def)

lemma resolveEntity_employees: "resolveEntity \<lparr>employees = Some e, externals = x\<rparr> = Some e"
  by (simp add: resolveEntity_def orElse_def)

lemma resolveEntity_externals: "resolveEntity \<lparr>employees = None, externals = x\<rparr> = x"
  by (simp add: resolveEntity_def orElse_def)

lemma row_of_active_record:
  assumes "row \<in> set (transformToTableData ts data months)"
  shows "\<exists>r e. r \<in> set data \<and> resolveEntity r = Some e \<and> status e = ''active''
           \<and> row = foldl (\<lambda>rowData m. setProp rowData m (monthCell ts e m))
                       (baseRow ts e (externals r \<noteq> None)) months"
proof -
  have "Some row \<in> set (map Some (transformToTableData ts data months))"
    using assms by simp
  then have "Some row \<in> set (map (toRow ts months) (filter isActive data))"
    by (simp only: transformToTableData_def toRow_filter_active)
  then obtain r where r: "r \<in> set data" "isActive r" "toRow ts months r = Some row"
    by auto
  from r(2) obtain e where e: "resolveEntity r = Some e" "status e = ''active''"
    by (cases "resolveEntity r") (simp_all add: isActive_def)
  have "row = foldl (\<lambda>rowData m. setProp rowData m (monthCell ts e m))
                (baseRow ts e (externals r \<noteq> None)) months"
    using r(3) toRow_resolved [OF e(1), of ts months] by simp
  then show ?thesis
    using r(1) e by blast
qed

text \<open>
  When no month is the label \<open>__proto__\<close>, the keys of every row are the four fixed keys
  and the months, and under each month there is the formatted lookup of that month, which
  is \<open>0%\<close> when the entity has no entry for it.
\<close>

lemma row_month_keys:
  assumes "''__proto__'' \<notin> set months"
    and "row \<in> set (transformToTableData ts data months)"
  shows "dom row = fixedKeys \<union> set months"
    and "\<exists>e. \<forall>m\<in>set months. row m = Some (monthCell ts e m)"
proof -
  obtain r :: SourceDataType and e :: Entity
    where row: "row = foldl (\<lambda>rowData m. setProp rowData m (monthCell ts e m))
                        (baseRow ts e (externals r \<noteq> None)) months"
    using row_of_active_record [OF assms(2)] by blast
  show "dom row = fixedKeys \<union> set months"
    using assms(1) by (auto simp: row dom_foldl_setProp dom_baseRow)
  have "row m = Some (monthCell ts e m)" if "m \<in> set months" for m
  proof -
    have "m \<noteq> ''__proto__''"
      using that assms(1) by auto
    then show ?thesis
      unfolding row using that by (intro foldl_setProp_in)
  qed
  then have "\<forall>m\<in>set months. row m = Some (monthCell ts e m)"
    by blast
  then show "\<exists>e. \<forall>m\<in>set months. row m = Some (monthCell ts e m)"
    by blast
qed

lemma monthCell_no_data:
  "list_all (\<lambda>i. toLowerCase (month i) \<noteq> toLowerCase m) items \<Longrightarrow>
   Option.bind (workforceUtilisation e) lastThreeMonthsIndividually = Some items \<Longrightarrow>
     monthCell ts e m = ''0%''"
  by (simp add: monthCell_def getMonthUtilization_def find_no_match formatPercentage_def)

section \<open>The classifier\<close>

lemma parseFloat_85_percent: "parseFloat ''85%'' = Fin 85"
  by (simp add: parseFloat_def string_defs fl_85)

lemma parseFloat_zero_amount: "parseFloat ''0.00'' = Fin 0"
  by (simp add: parseFloat_def string_defs fl_zero)

lemma keptByPattern_chars: "keptByPattern = (\<lambda>c. c \<in> set ''0123456789.-'')"
  by (rule ext) (auto simp: keptByPattern_def isDigit_def)

lemma inj_tierColor: "inj tierColor"
proof (rule injI)
  fix a b
  assume "tierColor a = tierColor b"
  then show "a = b" by (cases a; cases b) simp_all
qed

lemma inj_signColor: "inj signColor"
proof (rule injI)
  fix a b
  assume "signColor a = signColor b"
  then show "a = b" by (cases a; cases b) simp_all
qed

section \<open>Month discovery\<close>

lemma collect_items:
  "foldl (\<lambda>s item. if month item \<noteq> [] then setAdd s (month item) else s) acc items =
     foldl setAdd acc (filter (\<lambda>l. l \<noteq> []) (map month items))"
  by (induction items arbitrary: acc) simp_all

lemma collectMonths_labels: "collectMonths acc row = foldl setAdd acc (monthLabels [row])"
  by (simp add: collectMonths_def monthLabels_def collect_items Option.bind_def
      split: option.splits)

lemma monthLabels_Cons: "monthLabels (row # data) = monthLabels [row] @ monthLabels data"
  by (simp add: monthLabels_def)

lemma foldl_collectMonths: "foldl collectMonths acc data = foldl setAdd acc (monthLabels data)"
proof (induction data arbitrary: acc)
  case Nil
  show ?case by (simp add: monthLabels_def)
next
  case (Cons row data)
  have "foldl collectMonths acc (row # data) = foldl collectMonths (collectMonths acc row) data"
    by simp
  also have "\<dots> = foldl setAdd (foldl setAdd acc (monthLabels [row])) (monthLabels data)"
    by (simp add: Cons.IH collectMonths_labels)
  also have "\<dots> = foldl setAdd acc (monthLabels (row # data))"
    by (simp add: monthLabels_Cons [of row data])
  finally show ?case .
qed

lemma set_foldl_setAdd: "set (foldl setAdd acc xs) = set acc \<union> set xs"
  by (induction xs arbitrary: acc) (auto simp: setAdd_def)

lemma distinct_foldl_setAdd: "distinct acc \<Longrightarrow> distinct (foldl setAdd acc xs)"
  by (induction xs arbitrary: acc) (simp_all add: setAdd_def)

lemma orZero_month: "a \<notin> set objectPrototypeKeys \<Longrightarrow> orZero (MONTH_ORDER_get a) = Num (monthKey a)"
  by (auto simp: orZero_def MONTH_ORDER_get_def monthKey_def MONTH_ORDER_def split: option.splits)

lemma sortCompare_month:
  "a \<notin> set objectPrototypeKeys \<Longrightarrow> b \<notin> set objectPrototypeKeys \<Longrightarrow>
     sortCompare monthCompare a b = monthKey a - monthKey b"
  by (simp add: sortCompare_def monthCompare_def orZero_month js_minus_def)

lemma insertSorted_month:
  "x \<notin> set objectPrototypeKeys \<Longrightarrow> set ys \<inter> set objectPrototypeKeys = {} \<Longrightarrow>
     insertSorted monthCompare x ys = insort_key monthKey x ys"
proof (induction ys)
  case Nil
  show ?case by simp
next
  case (Cons y ys)
  then have y: "y \<notin> set objectPrototypeKeys" and ys: "set ys \<inter> set objectPrototypeKeys = {}"
    by auto
  show ?case
    using Cons.IH [OF Cons.prems(1) ys] sortCompare_month [OF Cons.prems(1) y] by simp
qed

lemma arraySort_month:
  "set xs \<inter> set objectPrototypeKeys = {} \<Longrightarrow> arraySort monthCompare xs = sort_key monthKey xs"
proof (induction xs)
  case Nil
  show ?case by (simp add: arraySort_def)
next
  case (Cons x xs)
  then have x: "x \<notin> set objectPrototypeKeys" and xs: "set xs \<inter> set objectPrototypeKeys = {}"
    by auto
  have "arraySort monthCompare (x # xs) = insertSorted monthCompare x (arraySort monthCompare xs)"
    by (simp add: arraySort_def)
  also have "\<dots> = insertSorted monthCompare x (sort_key monthKey xs)"
    by (simp add: Cons.IH [OF xs])
  also have "\<dots> = insort_key monthKey x (sort_key monthKey xs)"
    using x xs by (intro insertSorted_month) simp_all
  finally show ?case by simp
qed

text \<open>
  When no label is the name of a member of \<open>Object.prototype\<close>, month discovery is the
  stable sort by month number of the distinct non-empty labels, a label that is no month
  name counting as 0: the labels are all there, once each, and in the order of the keys.
\<close>

lemma getAvailableMonths_sorted:
  assumes "set (monthLabels data) \<inter> set objectPrototypeKeys = {}"
  shows "getAvailableMonths data = sort_key monthKey (foldl setAdd [] (monthLabels data))"
    and "set (getAvailableMonths data) = set (monthLabels data)"
    and "distinct (getAvailableMonths data)"
    and "sorted (map monthKey (getAvailableMonths data))"
proof -
  have "set (foldl setAdd [] (monthLabels data)) \<inter> set objectPrototypeKeys = {}"
    using assms by (simp add: set_foldl_setAdd)
  then show eq: "getAvailableMonths data = sort_key monthKey (foldl setAdd [] (monthLabels data))"
    by (simp add: getAvailableMonths_def foldl_collectMonths arraySort_month)
  show "set (getAvailableMonths data) = set (monthLabels data)"
    by (simp add: eq set_foldl_setAdd)
  show "distinct (getAvailableMonths data)"
    by (simp add: eq distinct_foldl_setAdd)
  show "sorted (map monthKey (getAvailableMonths data))"
    by (simp add: eq)
qed

lemmas month_eval_defs = getAvailableMonths_def collectMonths_def resolveEntity_def orElse_def
  setAdd_def arraySort_def monthCompare_def sortCompare_def MONTH_ORDER_get_def MONTH_ORDER_def
  objectPrototypeKeys_def orZero_def js_minus_def

text \<open>The example of the specification: March and January come out as January, March.\<close>

lemma getAvailableMonths_example:
  "getAvailableMonths
     [\<lparr>employees = Some \<lparr>status = ''active'', firstname = ''Ana'', lastname = ''Lee'',
         workforceUtilisation = Some \<lparr>utilisationRateLastTwelveMonths = None,
           utilisationRateYearToDate = None,
           lastThreeMonthsIndividually =
             Some [\<lparr>month = ''March'', utilisationRate = ''0.5''\<rparr>,
                   \<lparr>month = ''January'', utilisationRate = ''0.5''\<rparr>,
                   \<lparr>month = ''March'', utilisationRate = ''0.25''\<rparr>,
                   \<lparr>month = [], utilisationRate = ''0.25''\<rparr>],
           quarterEarnings = None\<rparr>,
         costsByMonth = None\<rparr>,
       externals = None\<rparr>] = [''January'', ''March'']"
  by (simp add: month_eval_defs)

text \<open>
  C1. For every entity \<open>calculateNetEarningsPrevMonth\<close> returns a number,
  never \<open>null\<close>, equal to revenue minus costs in number arithmetic. The costs are the
  parsed \<open>costs\<close> of the first cost entry whose \<open>month\<close> string-equals \<open>2024-07\<close>;
  no such entry, or an absent or empty \<open>costs\<close>, contributes 0. The revenue is the
  parsed \<open>earnings\<close> of the first \<open>quarterEarnings\<close> entry named \<open>Q3\<close>, divided
  by 3; no such entry, or an absent or empty \<open>earnings\<close>, contributes 0. A string that
  is there but does not parse contributes NaN, and the result is then NaN: it is not a
  finite number in every case.
\<close>

theorem calculateNetEarningsPrevMonth_revenue_minus_costs:
  "calculateNetEarningsPrevMonth (Some e) = Some (num_sub (revenueOf (Some e)) (costsOf (Some e)))
   \<and> (costEntry e = None \<longrightarrow> costsOf (Some e) = Fin 0)
   \<and> (\<forall>c. costEntry e = Some c \<longrightarrow> costsOf (Some e) = amountOf (costs c))
   \<and> (quarterEntry e = None \<longrightarrow> revenueOf (Some e) = Fin 0)
   \<and> (\<forall>q. quarterEntry e = Some q \<longrightarrow>
          revenueOf (Some e) = num_div (amountOf (earnings q)) (Fin 3))
   \<and> amountOf None = Fin 0
   \<and> amountOf (Some []) = Fin 0
   \<and> (\<forall>s. s \<noteq> [] \<longrightarrow> amountOf (Some s) = parseFloat s)
   \<and> (isNaN (revenueOf (Some e)) \<or> isNaN (costsOf (Some e)) \<longrightarrow>
        calculateNetEarningsPrevMonth (Some e) = Some NaN)
   \<and> calculateNetEarningsPrevMonth None = Some (Fin 0)"
proof -
  have "calculateNetEarningsPrevMonth None = Some (Fin 0)"
    by (simp add: calculateNetEarningsPrevMonth_def revenueOf_def costsOf_def orElse_def fl_zero)
  moreover have "isNaN (revenueOf (Some e)) \<or> isNaN (costsOf (Some e)) \<longrightarrow>
      calculateNetEarningsPrevMonth (Some e) = Some NaN"
    by (simp add: calculateNetEarningsPrevMonth_def num_sub_NaN)
  ultimately show ?thesis
    by (simp add: calculateNetEarningsPrevMonth_def costsOf_entry revenueOf_entry amountOf_def)
qed

theorem calculateNetEarningsPrevMonth_revenue_minus_costs_witness:
  "calculateNetEarningsPrevMonth
     (Some \<lparr>status = ''active'', firstname = ''Ana'', lastname = ''Lee'',
            workforceUtilisation = None,
            costsByMonth = Some \<lparr>potentialEarningsByMonth = None,
              costsByMonth_arr = Some [\<lparr>cost_month = Some ''2024-06'', costs = Some ''7''\<rparr>,
                                       \<lparr>cost_month = Some ''2024-07'', costs = Some ''abc''\<rparr>]\<rparr>\<rparr>)
     = Some NaN
   \<and> calculateNetEarningsPrevMonth
     (Some \<lparr>status = ''active'', firstname = ''Ana'', lastname = ''Lee'',
            workforceUtilisation = None, costsByMonth = None\<rparr>)
     = Some (Fin 0)
   \<and> calculateNetEarningsPrevMonth
     (Some \<lparr>status = ''active'', firstname = ''Ana'', lastname = ''Lee'',
            workforceUtilisation = Some \<lparr>utilisationRateLastTwelveMonths = None,
              utilisationRateYearToDate = None, lastThreeMonthsIndividually = None,
              quarterEarnings = Some [\<lparr>name = Some ''Q3'', earnings = Some ''300''\<rparr>]\<rparr>,
            costsByMonth = Some \<lparr>potentialEarningsByMonth = Some [],
              costsByMonth_arr = Some [\<lparr>cost_month = Some ''2024-07'', costs = Some ''100''\<rparr>]\<rparr>\<rparr>)
     = Some (Fin 100)"
proof -
  define e1 where "e1 = \<lparr>status = ''active'', firstname = ''Ana'', lastname = ''Lee'',
            workforceUtilisation = None,
            costsByMonth = Some \<lparr>potentialEarningsByMonth = None,
              costsByMonth_arr = Some [\<lparr>cost_month = Some ''2024-06'', costs = Some ''7''\<rparr>,
                                       \<lparr>cost_month = Some ''2024-07'', costs = Some ''abc''\<rparr>]\<rparr>\<rparr>"
  define e2 where "e2 = \<lparr>status = ''active'', firstname = ''Ana'', lastname = ''Lee'',
            workforceUtilisation = (None :: WorkforceUtilisation option),
            costsByMonth = (None :: CostsByMonth option)\<rparr>"
  define e3 where "e3 = \<lparr>status = ''active'', firstname = ''Ana'', lastname = ''Lee'',
            workforceUtilisation = Some \<lparr>utilisationRateLastTwelveMonths = None,
              utilisationRateYearToDate = None, lastThreeMonthsIndividually = None,
              quarterEarnings = Some [\<lparr>name = Some ''Q3'', earnings = Some ''300''\<rparr>]\<rparr>,
            costsByMonth = Some \<lparr>potentialEarningsByMonth = Some [],
              costsByMonth_arr = Some [\<lparr>cost_month = Some ''2024-07'', costs = Some ''100''\<rparr>]\<rparr>\<rparr>"
  have c1: "costEntry e1 = Some \<lparr>cost_month = Some ''2024-07'', costs = Some ''abc''\<rparr>"
    by (simp add: e1_def costEntry_def costTable_def)
  have c2: "costEntry e2 = None"
    by (simp add: e2_def costEntry_def costTable_def)
  have q2: "quarterEntry e2 = None"
    by (simp add: e2_def quarterEntry_def)
  have c3: "costEntry e3 = None"
    by (simp add: e3_def costEntry_def costTable_def)
  have q3: "quarterEntry e3 = Some \<lparr>name = Some ''Q3'', earnings = Some ''300''\<rparr>"
    by (simp add: e3_def quarterEntry_def)
  have "costsOf (Some e1) = NaN"
    using calculateNetEarningsPrevMonth_revenue_minus_costs [of e1] c1
    by (simp add: parseFloat_abc)
  then have "isNaN (costsOf (Some e1))"
    by (simp add: isNaN_def)
  then have "calculateNetEarningsPrevMonth (Some e1) = Some NaN"
    using calculateNetEarningsPrevMonth_revenue_minus_costs [of e1]
    by blast
  moreover have "calculateNetEarningsPrevMonth (Some e2) = Some (Fin 0)"
    using calculateNetEarningsPrevMonth_revenue_minus_costs [of e2] c2 q2
    by (simp add: fl_zero)
  moreover have "calculateNetEarningsPrevMonth (Some e3) = Some (Fin 100)"
    using calculateNetEarningsPrevMonth_revenue_minus_costs [of e3] c3 q3
    by (simp add: parseFloat_300 fl_100)
  ultimately show ?thesis
    by (simp add: e1_def e2_def e3_def)
qed

theorem calculateNetEarningsPrevMonth_unparsable_counterexample:
  "calculateNetEarningsPrevMonth
     (Some \<lparr>status = ''active'', firstname = ''Ana'', lastname = ''Lee'',
            workforceUtilisation = None,
            costsByMonth = Some \<lparr>potentialEarningsByMonth = None,
              costsByMonth_arr = Some [\<lparr>cost_month = Some ''2024-07'', costs = Some ''abc''\<rparr>]\<rparr>\<rparr>)
     = Some NaN
   \<and> \<not> isFinite NaN"
  by (simp add: calculateNetEarningsPrevMonth_def revenueOf_def costsOf_def orElse_def
      CURRENT_MONTH_def orZeroString_def parseFloat_abc isFinite_def)

text \<open>
  C2. \<open>transformToTableData\<close> emits exactly one row per record whose resolved entity
  (\<open>employees\<close>, else \<open>externals\<close>) has the status \<open>active\<close>. A record with no
  populated role, or whose resolved entity has any other status, gives no row: the
  number of rows is the number of such records, and the rows are, in input order, the
  rows \<open>toRow\<close> builds from the surviving records.
\<close>

theorem transformToTableData_one_row_per_active_record:
  "length (transformToTableData ts dataRows months) =
     length (filter (\<lambda>r. case employees r of
                             Some e \<Rightarrow> status e = ''active''
                           | None \<Rightarrow> (case externals r of
                                        Some e \<Rightarrow> status e = ''active''
                                      | None \<Rightarrow> False)) dataRows)
   \<and> map Some (transformToTableData ts dataRows months) =
       map (toRow ts months)
         (filter (\<lambda>r. case employees r of
                         Some e \<Rightarrow> status e = ''active''
                       | None \<Rightarrow> (case externals r of
                                    Some e \<Rightarrow> status e = ''active''
                                  | None \<Rightarrow> False)) dataRows)"
proof -
  have eq: "(\<lambda>r. case employees r of
                   Some e \<Rightarrow> status e = ''active''
                 | None \<Rightarrow> (case externals r of
                              Some e \<Rightarrow> status e = ''active''
                            | None \<Rightarrow> False)) = isActive"
    by (rule ext) (simp add: isActive_cases)
  have m: "map Some (transformToTableData ts dataRows months) =
             map (toRow ts months) (filter isActive dataRows)"
    unfolding transformToTableData_def by (rule toRow_filter_active)
  have "length (map Some (transformToTableData ts dataRows months)) =
          length (map (toRow ts months) (filter isActive dataRows))"
    by (simp only: m)
  then have l: "length (transformToTableData ts dataRows months) = length (filter isActive dataRows)"
    by simp
  show ?thesis unfolding eq using l m by simp
qed

theorem transformToTableData_one_row_per_active_record_witness:
  "length (transformToTableData (\<lambda>x. [])
     [\<lparr>employees = Some \<lparr>status = ''active'', firstname = ''Ana'', lastname = ''Lee'',
                          workforceUtilisation = None, costsByMonth = None\<rparr>,
       externals = None\<rparr>,
      \<lparr>employees = None,
       externals = Some \<lparr>status = ''inactive'', firstname = ''Bo'', lastname = ''Roy'',
                          workforceUtilisation = None, costsByMonth = None\<rparr>\<rparr>,
      \<lparr>employees = None, externals = None\<rparr>,
      \<lparr>employees = None,
       externals = Some \<lparr>status = ''active'', firstname = ''Cy'', lastname = ''Moe'',
                          workforceUtilisation = None, costsByMonth = None\<rparr>\<rparr>]
     [''June'']) = 2"
  using transformToTableData_one_row_per_active_record
    [of "\<lambda>x. []"
        "[\<lparr>employees = Some \<lparr>status = ''active'', firstname = ''Ana'', lastname = ''Lee'',
                          workforceUtilisation = None, costsByMonth = None\<rparr>,
       externals = None\<rparr>,
      \<lparr>employees = None,
       externals = Some \<lparr>status = ''inactive'', firstname = ''Bo'', lastname = ''Roy'',
                          workforceUtilisation = None, costsByMonth = None\<rparr>\<rparr>,
      \<lparr>employees = None, externals = None\<rparr>,
      \<lparr>employees = None,
       externals = Some \<lparr>status = ''active'', firstname = ''Cy'', lastname = ''Moe'',
                          workforceUtilisation = None, costsByMonth = None\<rparr>\<rparr>]"
        "[''June'']"]
  by simp

text \<open>
  C3. Month discovery is to return the distinct non-empty month labels sorted by the
  month-name lookup, a label absent from the lookup sorting first. The code reads the
  lookup with \<open>MONTH_ORDER[a] || 0\<close> on an object literal, so for a label that names a
  member of \<open>Object.prototype\<close> the read yields a function, the comparator yields NaN
  and the label is not moved: from the labels \<open>January\<close>, \<open>constructor\<close> the code
  returns \<open>January\<close>, \<open>constructor\<close>, where sorting by the lookup puts
  \<open>constructor\<close>, which is no month name, first.
\<close>

theorem getAvailableMonths_inherited_key:
  "getAvailableMonths
     [\<lparr>employees = Some \<lparr>status = ''active'', firstname = ''Ana'', lastname = ''Lee'',
         workforceUtilisation = Some \<lparr>utilisationRateLastTwelveMonths = None,
           utilisationRateYearToDate = None,
           lastThreeMonthsIndividually =
             Some [\<lparr>month = ''January'', utilisationRate = ''0.5''\<rparr>,
                   \<lparr>month = ''constructor'', utilisationRate = ''0.5''\<rparr>],
           quarterEarnings = None\<rparr>,
         costsByMonth = None\<rparr>,
       externals = None\<rparr>] = [''January'', ''constructor'']
   \<and> map_of MONTH_ORDER ''constructor'' = None
   \<and> sort_key monthKey [''January'', ''constructor''] = [''constructor'', ''January'']"
  by (simp add: month_eval_defs monthKey_def)

text \<open>
  C4. Every row is to have exactly the discovered months as its month keys. The code
  assigns each month with \<open>rowData[month] = ...\<close> on an object literal, and the
  assignment to the key \<open>__proto__\<close> makes no property: for a record whose months are
  \<open>July\<close> and \<open>__proto__\<close> both labels are discovered, and the row has the key
  \<open>July\<close> and no key \<open>__proto__\<close>.
\<close>

theorem row_lacks_proto_month_key:
  "getAvailableMonths
     [\<lparr>employees = Some \<lparr>status = ''active'', firstname = ''Ana'', lastname = ''Lee'',
         workforceUtilisation = Some \<lparr>utilisationRateLastTwelveMonths = None,
           utilisationRateYearToDate = None,
           lastThreeMonthsIndividually =
             Some [\<lparr>month = ''July'', utilisationRate = ''0.5''\<rparr>,
                   \<lparr>month = ''__proto__'', utilisationRate = ''0.5''\<rparr>],
           quarterEarnings = None\<rparr>,
         costsByMonth = None\<rparr>,
       externals = None\<rparr>] = [''July'', ''__proto__'']
   \<and> map dom
        (transformToTableData (\<lambda>x. [])
           [\<lparr>employees = Some \<lparr>status = ''active'', firstname = ''Ana'', lastname = ''Lee'',
               workforceUtilisation = Some \<lparr>utilisationRateLastTwelveMonths = None,
                 utilisationRateYearToDate = None,
                 lastThreeMonthsIndividually =
                   Some [\<lparr>month = ''July'', utilisationRate = ''0.5''\<rparr>,
                         \<lparr>month = ''__proto__'', utilisationRate = ''0.5''\<rparr>],
                 quarterEarnings = None\<rparr>,
               costsByMonth = None\<rparr>,
             externals = None\<rparr>]
           [''July'', ''__proto__'']) =
       [{''person'', ''past12Months'', ''y2d'', ''netEarningsPrevMonth'', ''July''}]"
proof -
  define e where "e = \<lparr>status = ''active'', firstname = ''Ana'', lastname = ''Lee'',
         workforceUtilisation = Some \<lparr>utilisationRateLastTwelveMonths = None,
           utilisationRateYearToDate = None,
           lastThreeMonthsIndividually =
             Some [\<lparr>month = ''July'', utilisationRate = ''0.5''\<rparr>,
                   \<lparr>month = ''__proto__'', utilisationRate = ''0.5''\<rparr>],
           quarterEarnings = None\<rparr>,
         costsByMonth = None\<rparr>"
  have months: "getAvailableMonths [\<lparr>employees = Some e, externals = None\<rparr>] = [''July'', ''__proto__'']"
    by (simp add: e_def month_eval_defs)
  have r: "resolveEntity \<lparr>employees = Some e, externals = None\<rparr> = Some e"
    by (rule resolveEntity_employees)
  have s: "status e = ''active''"
    by (simp add: e_def)
  have "map dom (transformToTableData (\<lambda>x. []) [\<lparr>employees = Some e, externals = None\<rparr>]
          [''July'', ''__proto__'']) =
        [fixedKeys \<union> (set [''July'', ''__proto__''] - {''__proto__''})]"
    by (simp only: transform_single_active [OF r s] dom_foldl_setProp dom_baseRow list.map)
  also have "\<dots> = [{''person'', ''past12Months'', ''y2d'', ''netEarningsPrevMonth'', ''July''}]"
    by (auto simp: fixedKeys_def)
  finally show ?thesis
    using months unfolding e_def by simp
qed

text \<open>
  C5. The formatters never fail. For an absent or NaN input
  \<open>formatPercentage\<close> returns exactly \<open>0%\<close> and \<open>formatCurrency\<close> exactly
  \<open>0.00 EUR\<close>. For a finite input whose scaled value stays below \<open>10^21\<close> in
  magnitude, \<open>formatPercentage\<close> returns the product with 100 (as the number
  arithmetic computes it) rounded to zero decimal places, the half away from zero, with
  the suffix \<open>%\<close>; for a finite input below \<open>10^21\<close> in magnitude
  \<open>formatCurrency\<close> returns the two-decimal fixed-point numeral of the amount with
  the suffix \<open> EUR\<close>. An infinite input is printed as \<open>Infinity\<close> or
  \<open>-Infinity\<close> before the suffix.
\<close>

theorem formatters_sentinels_and_fixed_point:
  "formatPercentage ts None = ''0%''
   \<and> formatPercentage ts (Some NaN) = ''0%''
   \<and> formatCurrency ts None = ''0.00 EUR''
   \<and> formatCurrency ts (Some NaN) = ''0.00 EUR''
   \<and> (num_mul (Fin q) (Fin 100) = Fin p \<and> \<bar>p\<bar> < 10 ^ 21 \<longrightarrow>
        formatPercentage ts (Some (Fin q)) = signOf p @ digitsOf (roundHalfUp \<bar>p\<bar>) @ ''%''
        \<and> isRatioString (formatPercentage ts (Some (Fin q))))
   \<and> (\<bar>q\<bar> < 10 ^ 21 \<longrightarrow>
        formatCurrency ts (Some (Fin q)) =
          signOf q @ digitsOf (roundHalfUp (\<bar>q\<bar> * 100) div 100) @ ''.'' @
            [digitChar (roundHalfUp (\<bar>q\<bar> * 100) div 10 mod 10),
             digitChar (roundHalfUp (\<bar>q\<bar> * 100) mod 10)] @ '' EUR''
        \<and> isCurrencyString (formatCurrency ts (Some (Fin q))))
   \<and> formatPercentage ts (Some PosInf) = ''Infinity%''
   \<and> formatPercentage ts (Some NegInf) = ''-Infinity%''
   \<and> formatCurrency ts (Some PosInf) = ''Infinity EUR''
   \<and> formatCurrency ts (Some NegInf) = ''-Infinity EUR''"
proof -
  have sentinels:
    "formatPercentage ts None = ''0%''" "formatPercentage ts (Some NaN) = ''0%''"
    "formatCurrency ts None = ''0.00 EUR''" "formatCurrency ts (Some NaN) = ''0.00 EUR''"
    by (simp_all add: formatPercentage_def formatCurrency_def isNaN_def)
  have ratio: "formatPercentage ts (Some (Fin q)) = signOf p @ digitsOf (roundHalfUp \<bar>p\<bar>) @ ''%''"
    if "num_mul (Fin q) (Fin 100) = Fin p" and "\<bar>p\<bar> < 10 ^ 21"
  proof -
    have "formatPercentage ts (Some (Fin q)) = toFixed ts (Fin p) 0 @ ''%''"
      using that(1) by (simp add: formatPercentage_def isNaN_def)
    then show ?thesis using toFixed_0 [OF that(2), of ts] by simp
  qed
  have currency:
    "formatCurrency ts (Some (Fin q)) =
       signOf q @ digitsOf (roundHalfUp (\<bar>q\<bar> * 100) div 100) @ ''.'' @
         [digitChar (roundHalfUp (\<bar>q\<bar> * 100) div 10 mod 10),
          digitChar (roundHalfUp (\<bar>q\<bar> * 100) mod 10)] @ '' EUR''"
    if "\<bar>q\<bar> < 10 ^ 21"
    using toFixed_2 [OF that, of ts] by (simp add: formatCurrency_def isNaN_def)
  have infinite:
    "formatPercentage ts (Some PosInf) = ''Infinity%''"
    "formatPercentage ts (Some NegInf) = ''-Infinity%''"
    "formatCurrency ts (Some PosInf) = ''Infinity EUR''"
    "formatCurrency ts (Some NegInf) = ''-Infinity EUR''"
    by (simp_all add: formatPercentage_def formatCurrency_def isNaN_def toFixed_def signedInf_def)
  show ?thesis
    using sentinels ratio currency formatCurrency_shape [of q ts]
      formatPercentage_shape [of q p ts] infinite by blast
qed

theorem formatters_sentinels_and_fixed_point_witness:
  "formatPercentage (\<lambda>x. []) (Some (Fin (1 / 2))) = ''50%''
   \<and> formatCurrency (\<lambda>x. []) (Some (Fin (- 5 / 2))) = ''-2.50 EUR''
   \<and> formatCurrency (\<lambda>x. []) (Some NaN) = ''0.00 EUR''"
proof -
  have m: "num_mul (Fin (1 / 2)) (Fin 100) = Fin 50 \<and> \<bar>50 :: rat\<bar> < 10 ^ 21"
    by (simp add: fl_50)
  have c: "\<bar>- 5 / 2 :: rat\<bar> < 10 ^ 21"
    by simp
  have r: "signOf 50 @ digitsOf (roundHalfUp \<bar>50\<bar>) @ ''%'' = ''50%''"
    by (simp add: signOf_def roundHalfUp_def digitsOf_small digitsOf_step digitChar_def)
  have a: "signOf (- 5 / 2) @ digitsOf (roundHalfUp (\<bar>- 5 / 2\<bar> * 100) div 100) @ ''.'' @
             [digitChar (roundHalfUp (\<bar>- 5 / 2\<bar> * 100) div 10 mod 10),
              digitChar (roundHalfUp (\<bar>- 5 / 2\<bar> * 100) mod 10)] @ '' EUR'' = ''-2.50 EUR''"
    by (simp add: signOf_def roundHalfUp_def digitsOf_small digitsOf_step digitChar_def)
  show ?thesis
    using formatters_sentinels_and_fixed_point [of "\<lambda>x. []" "1 / 2" 50] m r
      formatters_sentinels_and_fixed_point [of "\<lambda>x. []" "- 5 / 2" p] c a
    by simp
qed

theorem formatCurrency_infinite_counterexample:
  "\<not> isCurrencyString (formatCurrency (\<lambda>x. []) (Some PosInf))"
  by (simp add: formatCurrency_def isNaN_def toFixed_def isCurrencyString_def isFixedPoint_def
      stripMinus_def isDigit_def)

text \<open>
  C6. For an entity whose cost table has, for the month \<open>2024-07\<close>, the entry with
  costs \<open>100\<close>, and whose \<open>quarterEarnings\<close> has, under the name \<open>Q3\<close>, the entry
  with earnings \<open>300\<close>, the calculator yields the revenue 100 and the costs 100, hence
  the net earnings 0, which \<open>formatCurrency\<close> prints as exactly \<open>0.00 EUR\<close>; that
  string is the \<open>netEarningsPrevMonth\<close> cell of the entity's row.
\<close>

theorem net_earnings_round_trip_example:
  "costEntry e = Some \<lparr>cost_month = Some ''2024-07'', costs = Some ''100''\<rparr> \<Longrightarrow>
   quarterEntry e = Some \<lparr>name = Some ''Q3'', earnings = Some ''300''\<rparr> \<Longrightarrow>
   revenueOf (Some e) = Fin 100
   \<and> costsOf (Some e) = Fin 100
   \<and> calculateNetEarningsPrevMonth (Some e) = Some (Fin 0)
   \<and> formatCurrency ts (calculateNetEarningsPrevMonth (Some e)) = ''0.00 EUR''
   \<and> (resolveEntity r = Some e \<and> status e = ''active'' \<and> ''netEarningsPrevMonth'' \<notin> set months \<longrightarrow>
        map (\<lambda>row. row ''netEarningsPrevMonth'') (transformToTableData ts [r] months) =
          [Some ''0.00 EUR''])"
proof -
  assume c: "costEntry e = Some \<lparr>cost_month = Some ''2024-07'', costs = Some ''100''\<rparr>"
    and q: "quarterEntry e = Some \<lparr>name = Some ''Q3'', earnings = Some ''300''\<rparr>"
  have costs: "costsOf (Some e) = Fin 100"
    by (simp add: costsOf_entry c amountOf_def parseFloat_100)
  have revenue: "revenueOf (Some e) = Fin 100"
    by (simp add: revenueOf_entry q amountOf_def parseFloat_300 fl_100)
  have net: "calculateNetEarningsPrevMonth (Some e) = Some (Fin 0)"
    by (simp add: calculateNetEarningsPrevMonth_def costs revenue fl_zero)
  have cell: "formatCurrency ts (calculateNetEarningsPrevMonth (Some e)) = ''0.00 EUR''"
    by (simp add: net formatCurrency_def isNaN_def toFixed_zero_2)
  have "map (\<lambda>row. row ''netEarningsPrevMonth'') (transformToTableData ts [r] months) =
          [Some ''0.00 EUR'']"
    if "resolveEntity r = Some e" and "status e = ''active''"
      and "''netEarningsPrevMonth'' \<notin> set months"
    using transform_single_fixed_cell [OF that, of ts] cell
    by (simp add: baseRow_def Let_def)
  then show ?thesis
    using costs revenue net cell by blast
qed

theorem net_earnings_round_trip_example_witness:
  "map (\<lambda>row. row ''netEarningsPrevMonth'')
     (transformToTableData (\<lambda>x. [])
        [\<lparr>employees = Some \<lparr>status = ''active'', firstname = ''Ana'', lastname = ''Lee'',
            workforceUtilisation = Some \<lparr>utilisationRateLastTwelveMonths = None,
              utilisationRateYearToDate = None, lastThreeMonthsIndividually = None,
              quarterEarnings = Some [\<lparr>name = Some ''Q2'', earnings = Some ''90''\<rparr>,
                                      \<lparr>name = Some ''Q3'', earnings = Some ''300''\<rparr>]\<rparr>,
            costsByMonth = Some \<lparr>potentialEarningsByMonth = None,
              costsByMonth_arr = Some [\<lparr>cost_month = Some ''2024-07'', costs = Some ''100''\<rparr>]\<rparr>\<rparr>,
          externals = None\<rparr>]
        [''June'', ''July'']) = [Some ''0.00 EUR'']"
proof -
  define e where "e = \<lparr>status = ''active'', firstname = ''Ana'', lastname = ''Lee'',
            workforceUtilisation = Some \<lparr>utilisationRateLastTwelveMonths = None,
              utilisationRateYearToDate = None, lastThreeMonthsIndividually = None,
              quarterEarnings = Some [\<lparr>name = Some ''Q2'', earnings = Some ''90''\<rparr>,
                                      \<lparr>name = Some ''Q3'', earnings = Some ''300''\<rparr>]\<rparr>,
            costsByMonth = Some \<lparr>potentialEarningsByMonth = None,
              costsByMonth_arr = Some [\<lparr>cost_month = Some ''2024-07'', costs = Some ''100''\<rparr>]\<rparr>\<rparr>"
  have c: "costEntry e = Some \<lparr>cost_month = Some ''2024-07'', costs = Some ''100''\<rparr>"
    by (simp add: e_def costEntry_def costTable_def)
  have q: "quarterEntry e = Some \<lparr>name = Some ''Q3'', earnings = Some ''300''\<rparr>"
    by (simp add: e_def quarterEntry_def)
  have r: "resolveEntity \<lparr>employees = Some e, externals = None\<rparr> = Some e"
    by (simp add: resolveEntity_def orElse_def)
  have s: "status e = ''active''"
    by (simp add: e_def)
  have m: "''netEarningsPrevMonth'' \<notin> set [''June'', ''July'']"
    by simp
  show ?thesis
    using net_earnings_round_trip_example
      [OF c q, of "\<lambda>x. []" "\<lparr>employees = Some e, externals = None\<rparr>" "[''June'', ''July'']"]
      r s m
    unfolding e_def by blast
qed

text \<open>
  C7. The classifier is a total function of the display string. \<open>getUtilizationColor\<close>
  parses the leading numeric portion and returns the colour of the tier: neutral when
  nothing parses, high when the parsed value is at least 80, medium when it is at least
  50, low otherwise. \<open>getEarningsColor\<close> removes every character other than a digit,
  the minus sign and the dot, parses the rest, and returns the colour of the sign:
  neutral when nothing parses, positive when the value is at least 0 (zero counts as
  positive), negative otherwise. The colours of different tiers, and of different signs,
  are different.
\<close>

theorem classifier_tiers_and_signs:
  "getUtilizationColor s = tierColor (utilizationTier s)
   \<and> getEarningsColor s = signColor (earningsSignOf s)
   \<and> inj tierColor
   \<and> inj signColor
   \<and> (utilizationTier s = NeutralTier) = isNaN (parseFloat s)
   \<and> earningsSignOf ''0.00 EUR'' = Positive"
proof -
  have u: "getUtilizationColor s = tierColor (utilizationTier s)"
    by (cases "parseFloat s")
      (simp_all add: getUtilizationColor_def utilizationTier_def isNaN_def Let_def
        UTILIZATION_THRESHOLDS_HIGH_def UTILIZATION_THRESHOLDS_MEDIUM_def
        COLORS_neutral_def COLORS_utilization_high_def COLORS_utilization_medium_def
        COLORS_utilization_low_def)
  have e: "getEarningsColor s = signColor (earningsSignOf s)"
    by (cases "parseFloat (filter (\<lambda>c. c \<in> set ''0123456789.-'') s)")
      (simp_all add: getEarningsColor_def earningsSignOf_def keptByPattern_chars isNaN_def Let_def
        COLORS_neutral_def COLORS_earnings_positive_def COLORS_earnings_negative_def)
  have n: "(utilizationTier s = NeutralTier) = isNaN (parseFloat s)"
    by (cases "parseFloat s") (simp_all add: utilizationTier_def isNaN_def)
  have z: "earningsSignOf ''0.00 EUR'' = Positive"
    by (simp add: earningsSignOf_def parseFloat_zero_amount)
  show ?thesis
    using u e n z inj_tierColor inj_signColor by simp
qed

theorem classifier_tiers_and_signs_witness:
  "getUtilizationColor ''85%'' = ''#2e7d32''
   \<and> getUtilizationColor ''abc'' = ''#666''
   \<and> getEarningsColor ''0.00 EUR'' = ''#2e7d32''"
proof -
  have a: "utilizationTier ''85%'' = High"
    by (simp add: utilizationTier_def parseFloat_85_percent)
  have b: "utilizationTier ''abc'' = NeutralTier"
    by (simp add: utilizationTier_def parseFloat_abc)
  show ?thesis
    using classifier_tiers_and_signs [of "''85%''"] classifier_tiers_and_signs [of "''abc''"]
      classifier_tiers_and_signs [of "''0.00 EUR''"] a b
    by simp
qed

text \<open>
  C8. The per-month lookup \<open>getMonthUtilization\<close> compares labels after lower-casing
  both sides: an entry labelled \<open>july\<close> answers a lookup for the column \<open>July\<close>. Of
  several matching entries the first in sequence order is the one read. When no entry
  matches, or the sequence is absent, the lookup yields no value, which
  \<open>formatPercentage\<close> prints as \<open>0%\<close>.
\<close>

theorem getMonthUtilization_first_caseless_match:
  "getMonthUtilization (Some [\<lparr>month = ''july'', utilisationRate = r\<rparr>]) ''July'' = Some (parseFloat r)
   \<and> (\<forall>pre e post.
         list_all (\<lambda>m. toLowerCase (month m) \<noteq> toLowerCase col) pre
         \<and> toLowerCase (month e) = toLowerCase col
         \<longrightarrow> getMonthUtilization (Some (pre @ e # post)) col = Some (parseFloat (utilisationRate e)))
   \<and> (list_all (\<lambda>m. toLowerCase (month m) \<noteq> toLowerCase col) ms
        \<longrightarrow> getMonthUtilization (Some ms) col = None
            \<and> formatPercentage ts (getMonthUtilization (Some ms) col) = ''0%'')
   \<and> getMonthUtilization None col = None
   \<and> formatPercentage ts (getMonthUtilization None col) = ''0%''"
proof -
  have ex: "getMonthUtilization (Some [\<lparr>month = ''july'', utilisationRate = r\<rparr>]) ''July'' = Some (parseFloat r)"
    by (simp add: getMonthUtilization_def toLowerCase_def lowerChar_def)
  have first: "getMonthUtilization (Some (pre @ e # post)) col = Some (parseFloat (utilisationRate e))"
    if "list_all (\<lambda>m. toLowerCase (month m) \<noteq> toLowerCase col) pre"
      and "toLowerCase (month e) = toLowerCase col" for pre e post
    using find_first_match [of "\<lambda>m. toLowerCase (month m) = toLowerCase col" pre e post] that
    by (simp add: getMonthUtilization_def)
  have none: "getMonthUtilization (Some ms) col = None"
    if "list_all (\<lambda>m. toLowerCase (month m) \<noteq> toLowerCase col) ms"
    using find_no_match [of "\<lambda>m. toLowerCase (month m) = toLowerCase col" ms] that
    by (simp add: getMonthUtilization_def)
  have undef: "getMonthUtilization None col = None"
    by (simp add: getMonthUtilization_def)
  show ?thesis
    using ex first none undef by (simp add: formatPercentage_def)
qed

theorem getMonthUtilization_first_caseless_match_witness:
  "getMonthUtilization
     (Some [\<lparr>month = ''June'', utilisationRate = ''0.5''\<rparr>,
            \<lparr>month = ''JULY'', utilisationRate = ''0.25''\<rparr>,
            \<lparr>month = ''july'', utilisationRate = ''0.75''\<rparr>]) ''July'' = Some (Fin (1 / 4))
   \<and> getMonthUtilization (Some [\<lparr>month = ''June'', utilisationRate = ''0.5''\<rparr>]) ''July'' = None"
proof -
  note inst = getMonthUtilization_first_caseless_match
    [of "''0''" "''July''" "[\<lparr>month = ''June'', utilisationRate = ''0.5''\<rparr>]" "\<lambda>x. []"]
  have a: "list_all (\<lambda>m. toLowerCase (month m) \<noteq> toLowerCase ''July'')
             [\<lparr>month = ''June'', utilisationRate = ''0.5''\<rparr>]"
    by (simp add: toLowerCase_def lowerChar_def)
  have b: "toLowerCase (month \<lparr>month = ''JULY'', utilisationRate = ''0.25''\<rparr>) = toLowerCase ''July''"
    by (simp add: toLowerCase_def lowerChar_def)
  have "getMonthUtilization
          (Some ([\<lparr>month = ''June'', utilisationRate = ''0.5''\<rparr>] @
                 \<lparr>month = ''JULY'', utilisationRate = ''0.25''\<rparr> #
                 [\<lparr>month = ''july'', utilisationRate = ''0.75''\<rparr>])) ''July'' =
        Some (parseFloat (utilisationRate \<lparr>month = ''JULY'', utilisationRate = ''0.25''\<rparr>))"
    using inst [THEN conjunct2, THEN conjunct1, rule_format,
        of "[\<lparr>month = ''June'', utilisationRate = ''0.5''\<rparr>]"
           "\<lparr>month = ''JULY'', utilisationRate = ''0.25''\<rparr>"
           "[\<lparr>month = ''july'', utilisationRate = ''0.75''\<rparr>]"] a b
    by blast
  moreover have "getMonthUtilization (Some [\<lparr>month = ''June'', utilisationRate = ''0.5''\<rparr>]) ''July'' = None"
    using inst a by blast
  ultimately show ?thesis
    by (simp add: parseFloat_quarter)
qed

text \<open>
  C9. A record populated under the external role with the first name \<open>Ana\<close> and the
  last name \<open>Lee\<close> gives a row whose \<open>person\<close> column is exactly
  \<open>Ana Lee (External)\<close>; the same fields under the employee role give exactly
  \<open>Ana Lee\<close>. In general the person is the first name, a space and the last name,
  followed by the suffix \<open> (External)\<close> exactly when the \<open>externals\<close> field of the
  record is populated. This is the \<open>person\<close> of the object literal that the row starts
  as, and of the finished row when no month column reuses the key \<open>person\<close> (the
  month columns are assigned after the fixed ones).
\<close>

theorem person_column_external_suffix:
  "status e = ''active'' \<Longrightarrow> firstname e = ''Ana'' \<Longrightarrow> lastname e = ''Lee'' \<Longrightarrow>
   ''person'' \<notin> set months \<Longrightarrow>
   baseRow ts e True ''person'' = Some ''Ana Lee (External)''
   \<and> baseRow ts e False ''person'' = Some ''Ana Lee''
   \<and> map (\<lambda>row. row ''person'')
     (transformToTableData ts [\<lparr>employees = None, externals = Some e\<rparr>] months) =
     [Some ''Ana Lee (External)'']
   \<and> map (\<lambda>row. row ''person'')
       (transformToTableData ts [\<lparr>employees = Some e, externals = None\<rparr>] months) =
       [Some ''Ana Lee'']
   \<and> (resolveEntity r = Some d \<and> status d = ''active'' \<longrightarrow>
        map (\<lambda>row. row ''person'') (transformToTableData ts [r] months) =
          [Some (firstname d @ '' '' @ lastname d @
             (if externals r = None then [] else '' (External)''))])"
proof -
  assume act: "status e = ''active''" and fn: "firstname e = ''Ana''"
    and ln: "lastname e = ''Lee''" and m: "''person'' \<notin> set months"
  have general:
    "map (\<lambda>row. row ''person'') (transformToTableData ts [r] months) =
       [Some (firstname d @ '' '' @ lastname d @
          (if externals r = None then [] else '' (External)''))]"
    if "resolveEntity r = Some d" and "status d = ''active''" for r d
    using transform_single_fixed_cell [OF that m, of ts]
    by (simp add: baseRow_person personOf_def)
  have "map (\<lambda>row. row ''person'')
          (transformToTableData ts [\<lparr>employees = None, externals = Some e\<rparr>] months) =
        [Some ''Ana Lee (External)'']"
    using general [of "\<lparr>employees = None, externals = Some e\<rparr>" e] act fn ln
    by (simp add: resolveEntity_externals)
  moreover have "map (\<lambda>row. row ''person'')
          (transformToTableData ts [\<lparr>employees = Some e, externals = None\<rparr>] months) =
        [Some ''Ana Lee'']"
    using general [of "\<lparr>employees = Some e, externals = None\<rparr>" e] act fn ln
    by (simp add: resolveEntity_employees)
  moreover have "baseRow ts e True ''person'' = Some ''Ana Lee (External)''"
    and "baseRow ts e False ''person'' = Some ''Ana Lee''"
    using fn ln by (simp_all add: baseRow_person personOf_def)
  ultimately show ?thesis
    using general by blast
qed

theorem person_column_external_suffix_witness:
  "map (\<lambda>row. row ''person'')
     (transformToTableData (\<lambda>x. [])
        [\<lparr>employees = None,
          externals = Some \<lparr>status = ''active'', firstname = ''Ana'', lastname = ''Lee'',
                             workforceUtilisation = None, costsByMonth = None\<rparr>\<rparr>]
        [''June'', ''July'']) = [Some ''Ana Lee (External)'']
   \<and> map (\<lambda>row. row ''person'')
     (transformToTableData (\<lambda>x. [])
        [\<lparr>employees = Some \<lparr>status = ''active'', firstname = ''Ana'', lastname = ''Lee'',
                             workforceUtilisation = None, costsByMonth = None\<rparr>,
          externals = None\<rparr>]
        [''June'', ''July'']) = [Some ''Ana Lee'']"
  using person_column_external_suffix
    [of "\<lparr>status = ''active'', firstname = ''Ana'', lastname = ''Lee'',
          workforceUtilisation = None, costsByMonth = None\<rparr>"
        "[''June'', ''July'']" "\<lambda>x. []"]
  by simp

text \<open>
  C10. For a record in which both role fields are populated, the row assembler takes
  the entity data from the \<open>employees\<close> payload: whether there is a row depends on the
  status of that payload alone, the content of the \<open>externals\<close> payload changes
  nothing, and every column other than \<open>person\<close> is what the record with the
  \<open>employees\<close> payload alone gives. The person is still built with the suffix
  \<open> (External)\<close>, since the suffix depends on the presence of the \<open>externals\<close> field
  only. (As for C9, the month list is taken not to reuse the key \<open>person\<close>.)
\<close>

theorem both_roles_employee_data_external_suffix:
  "(status e = ''active'' \<and> ''person'' \<notin> set months \<longrightarrow>
      map (\<lambda>row. row ''person'')
        (transformToTableData ts [\<lparr>employees = Some e, externals = Some x\<rparr>] months) =
        [Some (firstname e @ '' '' @ lastname e @ '' (External)'')])
   \<and> (k \<noteq> ''person'' \<longrightarrow>
        map (\<lambda>row. row k)
          (transformToTableData ts [\<lparr>employees = Some e, externals = Some x\<rparr>] months) =
        map (\<lambda>row. row k)
          (transformToTableData ts [\<lparr>employees = Some e, externals = None\<rparr>] months))
   \<and> (status e \<noteq> ''active'' \<longrightarrow>
        transformToTableData ts [\<lparr>employees = Some e, externals = Some x\<rparr>] months = [])
   \<and> transformToTableData ts [\<lparr>employees = Some e, externals = Some x\<rparr>] months =
       transformToTableData ts [\<lparr>employees = Some e, externals = Some y\<rparr>] months"
proof -
  let ?both = "\<lparr>employees = Some e, externals = Some x\<rparr>"
  let ?other = "\<lparr>employees = Some e, externals = Some y\<rparr>"
  let ?only = "\<lparr>employees = Some e, externals = None\<rparr>"
  have rb: "resolveEntity ?both = Some e" and ro: "resolveEntity ?other = Some e"
    and rn: "resolveEntity ?only = Some e"
    by (simp_all add: resolveEntity_employees)
  have person: "map (\<lambda>row. row ''person'') (transformToTableData ts [?both] months) =
        [Some (firstname e @ '' '' @ lastname e @ '' (External)'')]"
    if "status e = ''active''" and "''person'' \<notin> set months"
    using transform_single_fixed_cell [OF rb that, of ts]
    by (simp add: baseRow_person personOf_def)
  have inactive: "transformToTableData ts [?both] months = []" if "status e \<noteq> ''active''"
    using transform_single_inactive [OF rb that] by simp
  have same: "transformToTableData ts [?both] months = transformToTableData ts [?other] months"
  proof (cases "status e = ''active''")
    case True
    show ?thesis
      using transform_single_active [OF rb True, of ts months]
        transform_single_active [OF ro True, of ts months]
      by simp
  next
    case False
    show ?thesis
      using transform_single_inactive [OF rb False, of ts months]
        transform_single_inactive [OF ro False, of ts months]
      by simp
  qed
  have others: "map (\<lambda>row. row k) (transformToTableData ts [?both] months) =
        map (\<lambda>row. row k) (transformToTableData ts [?only] months)"
    if "k \<noteq> ''person''"
  proof (cases "status e = ''active''")
    case True
    have "foldl (\<lambda>rowData m. setProp rowData m (monthCell ts e m)) (baseRow ts e True) months k =
          foldl (\<lambda>rowData m. setProp rowData m (monthCell ts e m)) (baseRow ts e False) months k"
      using baseRow_other [OF that, of ts e True False] by (rule foldl_setProp_agree)
    then show ?thesis
      using transform_single_active [OF rb True, of ts months]
        transform_single_active [OF rn True, of ts months]
      by simp
  next
    case False
    show ?thesis
      using transform_single_inactive [OF rb False, of ts months]
        transform_single_inactive [OF rn False, of ts months]
      by simp
  qed
  show ?thesis
    using person others inactive same by blast
qed

theorem both_roles_employee_data_external_suffix_witness:
  "map (\<lambda>row. row ''person'')
     (transformToTableData (\<lambda>x. [])
        [\<lparr>employees = Some \<lparr>status = ''active'', firstname = ''Ana'', lastname = ''Lee'',
                             workforceUtilisation = None, costsByMonth = None\<rparr>,
          externals = Some \<lparr>status = ''inactive'', firstname = ''Bo'', lastname = ''Roy'',
                             workforceUtilisation = None, costsByMonth = None\<rparr>\<rparr>]
        [''June'']) = [Some ''Ana Lee (External)'']
   \<and> transformToTableData (\<lambda>x. [])
        [\<lparr>employees = Some \<lparr>status = ''inactive'', firstname = ''Ana'', lastname = ''Lee'',
                             workforceUtilisation = None, costsByMonth = None\<rparr>,
          externals = Some \<lparr>status = ''active'', firstname = ''Bo'', lastname = ''Roy'',
                             workforceUtilisation = None, costsByMonth = None\<rparr>\<rparr>]
        [''June''] = []
   \<and> map (\<lambda>row. row ''y2d'')
     (transformToTableData (\<lambda>x. [])
        [\<lparr>employees = Some \<lparr>status = ''active'', firstname = ''Ana'', lastname = ''Lee'',
                             workforceUtilisation = None, costsByMonth = None\<rparr>,
          externals = Some \<lparr>status = ''inactive'', firstname = ''Bo'', lastname = ''Roy'',
                             workforceUtilisation = None, costsByMonth = None\<rparr>\<rparr>]
        [''June'']) =
     map (\<lambda>row. row ''y2d'')
     (transformToTableData (\<lambda>x. [])
        [\<lparr>employees = Some \<lparr>status = ''active'', firstname = ''Ana'', lastname = ''Lee'',
                             workforceUtilisation = None, costsByMonth = None\<rparr>,
          externals = None\<rparr>]
        [''June''])"
  using both_roles_employee_data_external_suffix
    [of "\<lparr>status = ''active'', firstname = ''Ana'', lastname = ''Lee'',
          workforceUtilisation = None, costsByMonth = None\<rparr>"
        "[''June'']" "\<lambda>x. []"
        "\<lparr>status = ''inactive'', firstname = ''Bo'', lastname = ''Roy'',
          workforceUtilisation = None, costsByMonth = None\<rparr>" "''y2d''"]
    both_roles_employee_data_external_suffix
    [of "\<lparr>status = ''inactive'', firstname = ''Ana'', lastname = ''Lee'',
          workforceUtilisation = None, costsByMonth = None\<rparr>"
        "[''June'']" "\<lambda>x. []"
        "\<lparr>status = ''active'', firstname = ''Bo'', lastname = ''Roy'',
          workforceUtilisation = None, costsByMonth = None\<rparr>" "''y2d''"]
  by simp

end
